theory Spec2Isabelle
  imports Complex_Main "HOL-Library.Multiset"
begin

section \<open>Numbers and lots\<close>

text \<open>
  The tracker is written in JavaScript; every quantity is a Number. The embedding reads a
  Number that is finite as a \<^typ>\<open>real\<close>: arithmetic is exact, so rounding of IEEE doubles
  is outside the model, and a statement "within floating tolerance" is proved here as an
  exact identity (or an explicit bound). Where the code can meet the value NaN (a text field
  that does not hold a number, a date that does not parse) the type \<open>jsnum\<close> is used.
  Infinite values are not modelled.
\<close>

datatype jsnum = Num real | NaN

text \<open>A lot as \<open>handleBuy\<close> creates it: \<open>{ qty, price, date }\<close>.\<close>

record lot =
  qty :: real
  price :: real
  date :: string

section \<open>FIFO lot helper\<close>

text \<open>
  \<open>consumeLotsFIFO(lots, sellQty)\<close>: the body of the \<open>for (const lot of lots)\<close> loop is
  \<open>consume_step\<close>, on the loop state \<open>(consumed, remaining, newLots)\<close>; \<open>push\<close> appends.
\<close>

type_synonym fifo_state = "lot list \<times> real \<times> lot list"

definition consume_step :: "fifo_state \<Rightarrow> lot \<Rightarrow> fifo_state" where
  "consume_step st l =
     (case st of (consumed, remaining, newLots) \<Rightarrow>
        if remaining \<le> 0 then (consumed, remaining, newLots @ [l])
        else
          let take = min remaining (qty l);
              consumed' = (if take > 0 then consumed @ [l\<lparr>qty := take\<rparr>] else consumed);
              leftover = qty l - take;
              newLots' = (if leftover > 0 then newLots @ [l\<lparr>qty := leftover\<rparr>] else newLots)
          in (consumed', remaining - take, newLots'))"

fun consume_loop :: "lot list \<Rightarrow> fifo_state \<Rightarrow> fifo_state" where
  "consume_loop [] st = st"
| "consume_loop (l # ls) st = consume_loop ls (consume_step st l)"

record fifo_result =
  consumed :: "lot list"
  newLots :: "lot list"
  unfilled :: real

definition consumeLotsFIFO :: "lot list \<Rightarrow> real \<Rightarrow> fifo_result" where
  "consumeLotsFIFO ls sellQty =
     (case consume_loop ls ([], sellQty, []) of (c, remaining, n) \<Rightarrow>
        \<lparr>consumed = c, newLots = n, unfilled = max 0 remaining\<rparr>)"

text \<open>The total quantity of a list of lots.\<close>

definition total_qty :: "lot list \<Rightarrow> real" where
  "total_qty ls = sum_list (map qty ls)"

section \<open>JavaScript values the code tests\<close>

text \<open>
  A field that holds a string when it is set: \<open>firstContribution\<close> is \<open>null\<close> until the
  first buy, and the \<open>date\<close> of an imported transaction may be missing. \<open>truthy\<close> is
  JavaScript's test of such a value in \<open>!x\<close>, \<open>x && ...\<close> and \<open>x || ...\<close>.
\<close>

datatype jsstr = Undefined | Null | Str string

fun truthy :: "jsstr \<Rightarrow> bool" where
  "truthy Undefined = False"
| "truthy Null = False"
| "truthy (Str s) = (s \<noteq> [])"

text \<open>
  \<open>Number(x) || 0\<close>: the argument of type \<open>jsnum\<close> stands for the value of \<open>Number(x)\<close>;
  NaN and 0 are falsy. \<open>v || 0\<close> on a field that may be \<open>undefined\<close> is \<open>opt_or_zero\<close>.
\<close>

fun or_zero :: "jsnum \<Rightarrow> real" where
  "or_zero (Num r) = r"
| "or_zero NaN = 0"

fun opt_or_zero :: "real option \<Rightarrow> real" where
  "opt_or_zero (Some r) = r"
| "opt_or_zero None = 0"

text \<open>Comparisons with NaN are false.\<close>

fun js_ge :: "jsnum \<Rightarrow> jsnum \<Rightarrow> bool" where
  "js_ge (Num x) (Num y) = (x \<ge> y)"
| "js_ge _ _ = False"

fun js_le :: "jsnum \<Rightarrow> jsnum \<Rightarrow> bool" where
  "js_le (Num x) (Num y) = (x \<le> y)"
| "js_le _ _ = False"

section \<open>Dates\<close>

text \<open>
  Time values are milliseconds since 1970-01-01T00:00:00Z. The day arithmetic is that of
  the ECMAScript specification (DayFromYear, InLeapYear, MakeDay, MakeTime, MakeDate);
  months are numbered from 1 here.
\<close>

definition InLeapYear :: "int \<Rightarrow> bool" where
  "InLeapYear y = (y mod 4 = 0 \<and> (y mod 100 \<noteq> 0 \<or> y mod 400 = 0))"

definition DayFromYear :: "int \<Rightarrow> int" where
  "DayFromYear y =
     365 * (y - 1970) + (y - 1969) div 4 - (y - 1901) div 100 + (y - 1601) div 400"

definition DaysInMonth :: "int \<Rightarrow> nat \<Rightarrow> nat" where
  "DaysInMonth y m =
     (if m = 2 then (if InLeapYear y then 29 else 28)
      else if m = 4 \<or> m = 6 \<or> m = 9 \<or> m = 11 then 30 else 31)"

fun DaysBeforeMonth :: "int \<Rightarrow> nat \<Rightarrow> nat" where
  "DaysBeforeMonth y 0 = 0"
| "DaysBeforeMonth y (Suc 0) = 0"
| "DaysBeforeMonth y (Suc (Suc m)) = DaysBeforeMonth y (Suc m) + DaysInMonth y (Suc m)"

definition MakeDay :: "int \<Rightarrow> nat \<Rightarrow> nat \<Rightarrow> int" where
  "MakeDay y m d = DayFromYear y + int (DaysBeforeMonth y m) + int d - 1"

definition MakeTime :: "nat \<Rightarrow> nat \<Rightarrow> nat \<Rightarrow> nat \<Rightarrow> int" where
  "MakeTime h mi sec ms = int h * 3600000 + int mi * 60000 + int sec * 1000 + int ms"

definition MakeDate :: "int \<Rightarrow> int \<Rightarrow> int" where
  "MakeDate day time = day * 86400000 + time"

text \<open>The time value of a civil UTC date and time.\<close>

definition utc_ms :: "int \<Rightarrow> nat \<Rightarrow> nat \<Rightarrow> nat \<Rightarrow> nat \<Rightarrow> nat \<Rightarrow> nat \<Rightarrow> int" where
  "utc_ms y m d h mi sec ms = MakeDate (MakeDay y m d) (MakeTime h mi sec ms)"

text \<open>
  Strings of decimal digits, and \<open>String(n)\<close> of an integer Number (the template literals
  of \<open>CGTSummaryFY\<close> print the year that way).
\<close>

definition digit_val :: "char \<Rightarrow> nat option" where
  "digit_val c =
     (let k = (of_char c :: nat) in if 48 \<le> k \<and> k \<le> 57 then Some (k - 48) else None)"

fun digits_val :: "nat \<Rightarrow> string \<Rightarrow> nat option" where
  "digits_val acc [] = Some acc"
| "digits_val acc (c # cs) =
     (case digit_val c of None \<Rightarrow> None | Some d \<Rightarrow> digits_val (10 * acc + d) cs)"

definition digit_char :: "nat \<Rightarrow> char" where
  "digit_char d = char_of (48 + d)"

fun string_of_nat :: "nat \<Rightarrow> string" where
  "string_of_nat n =
     (if n < 10 then [digit_char n] else string_of_nat (n div 10) @ [digit_char (n mod 10)])"

declare string_of_nat.simps [simp del]

definition string_of_int :: "int \<Rightarrow> string" where
  "string_of_int i =
     (if i < 0 then CHR ''-'' # string_of_nat (nat (- i)) else string_of_nat (nat i))"

text \<open>
  \<open>new Date(s).getTime()\<close>. Every engine reads the format that \<open>toISOString\<close> writes,
  \<open>YYYY-MM-DDTHH:mm:ss.sssZ\<close>, as the UTC instant it names: that is \<open>parse_iso_utc\<close>.
  What an engine makes of any other string (other ISO forms, local times, legacy formats,
  or NaN) is the parameter \<open>other\<close> of \<open>Date_parse\<close>; \<open>None\<close> is NaN, an invalid date.
\<close>

definition parse_iso_utc :: "string \<Rightarrow> int option" where
  "parse_iso_utc s =
     (if length s = 24 \<and> s ! 4 = CHR ''-'' \<and> s ! 7 = CHR ''-'' \<and> s ! 10 = CHR ''T''
         \<and> s ! 13 = CHR '':'' \<and> s ! 16 = CHR '':'' \<and> s ! 19 = CHR ''.'' \<and> s ! 23 = CHR ''Z''
      then
        Option.bind (digits_val 0 (take 4 s)) (\<lambda>y.
        Option.bind (digits_val 0 (take 2 (drop 5 s))) (\<lambda>m.
        Option.bind (digits_val 0 (take 2 (drop 8 s))) (\<lambda>d.
        Option.bind (digits_val 0 (take 2 (drop 11 s))) (\<lambda>h.
        Option.bind (digits_val 0 (take 2 (drop 14 s))) (\<lambda>mi.
        Option.bind (digits_val 0 (take 2 (drop 17 s))) (\<lambda>sec.
        Option.bind (digits_val 0 (take 3 (drop 20 s))) (\<lambda>ms.
          if 1 \<le> m \<and> m \<le> 12 \<and> 1 \<le> d \<and> d \<le> DaysInMonth (int y) m
              \<and> h \<le> 23 \<and> mi \<le> 59 \<and> sec \<le> 59
          then Some (utc_ms (int y) m d h mi sec ms) else None)))))))
      else None)"

definition Date_parse :: "(string \<Rightarrow> int option) \<Rightarrow> string \<Rightarrow> int option" where
  "Date_parse other s = (case parse_iso_utc s of Some t \<Rightarrow> Some t | None \<Rightarrow> other s)"

text \<open>
  \<open>new Date(v)\<close> read as a Number (\<open>getTime()\<close>, or the operand of a subtraction), for a
  field \<open>v\<close>: \<open>new Date(undefined)\<close> is invalid and \<open>new Date(null)\<close> is the epoch.
\<close>

fun new_Date :: "(string \<Rightarrow> int option) \<Rightarrow> jsstr \<Rightarrow> jsnum" where
  "new_Date other (Str s) =
     (case Date_parse other s of Some t \<Rightarrow> Num (real_of_int t) | None \<Rightarrow> NaN)"
| "new_Date other Undefined = NaN"
| "new_Date other Null = Num 0"

text \<open>
  \<open>new Date()\<close>, the clock: the code reads its time value and its \<open>toISOString()\<close>.
\<close>

record date_obj =
  getTime :: int
  toISOString :: string

text \<open>\<open>yearsBetween(a, b)\<close>, on the Numbers the two dates convert to.\<close>

fun yearsBetween :: "jsnum \<Rightarrow> jsnum \<Rightarrow> jsnum" where
  "yearsBetween (Num a) (Num b) = Num ((b - a) / (1000 * 60 * 60 * 24 * 365.25))"
| "yearsBetween _ _ = NaN"

section \<open>Assets, transactions and the application state\<close>

text \<open>
  An asset as the component initialises it; a transaction as \<open>addTransaction\<close> stores it.
  The fields that only a SELL carries are \<open>None\<close> (\<open>undefined\<close>) on a BUY.
\<close>

record asset =
  ticker :: string
  name :: string
  targetWeight :: real
  price :: real
  units :: real
  invested :: real
  lots :: "lot list"
  firstContribution :: jsstr

record tx =
  tx_id :: string
  kind :: string
  ticker :: string
  amount :: real
  units :: real
  price :: real
  proceeds :: "real option"
  costBase :: "real option"
  gain :: "real option"
  discountGain :: "real option"
  date :: jsstr

text \<open>The two pieces of React state, \<open>assets\<close> and \<open>txn\<close>.\<close>

record state =
  assets :: "asset list"
  txn :: "tx list"

text \<open>
  \<open>updateAsset(ticker, patch)\<close>: \<open>{ ...a, ...patch }\<close> on every asset with that ticker; the
  patch is a record update.
\<close>

definition updateAsset :: "string \<Rightarrow> (asset \<Rightarrow> asset) \<Rightarrow> state \<Rightarrow> state" where
  "updateAsset tk patch s =
     s\<lparr>assets := map (\<lambda>a. if asset.ticker a = tk then patch a else a) (assets s)\<rparr>"

text \<open>\<open>addTransaction(t)\<close>; the result of \<open>crypto.randomUUID()\<close> is the argument \<open>uuid\<close>.\<close>

definition addTransaction :: "string \<Rightarrow> tx \<Rightarrow> state \<Rightarrow> state" where
  "addTransaction uuid t s = s\<lparr>txn := t\<lparr>tx_id := uuid\<rparr> # txn s\<rparr>"

section \<open>Buying and selling\<close>

text \<open>
  \<open>handleBuy(ticker, amount)\<close>. \<open>amountArg\<close> is the value of \<open>Number(amount)\<close>; \<open>now1\<close> and
  \<open>now2\<close> are the two readings \<open>new Date().toISOString()\<close>. \<open>!a.price\<close> on a Number that is
  not NaN is \<open>price = 0\<close>.
\<close>

definition handleBuy :: "string \<Rightarrow> jsnum \<Rightarrow> string \<Rightarrow> string \<Rightarrow> string \<Rightarrow> state \<Rightarrow> state" where
  "handleBuy tk amountArg now1 now2 uuid s =
     (let amt = max 0 (or_zero amountArg) in
      case find (\<lambda>x. asset.ticker x = tk) (assets s) of
        None \<Rightarrow> s
      | Some a \<Rightarrow>
          if asset.price a = 0 \<or> amt \<le> 0 then s
          else
            let u = amt / asset.price a;
                l = \<lparr>qty = u, price = asset.price a, date = now1\<rparr>
            in addTransaction uuid
                 \<lparr>tx_id = [], kind = ''BUY'', ticker = tk, amount = amt, units = u,
                  price = asset.price a, proceeds = None, costBase = None, gain = None,
                  discountGain = None, date = Str now2\<rparr>
                 (updateAsset tk
                    (\<lambda>x. x\<lparr>asset.units := asset.units a + u,
                            invested := invested a + amt,
                            lots := lots a @ [l],
                            firstContribution :=
                              (if truthy (firstContribution a) then firstContribution a
                               else Str (lot.date l))\<rparr>) s))"

text \<open>
  The reducer of \<open>handleSell\<close> over the consumed lots, on the accumulator
  \<open>{ gain, discountGain }\<close> (a pair here), for the asset's price \<open>p\<close> and the sale date.
\<close>

definition discount_step ::
  "(string \<Rightarrow> int option) \<Rightarrow> real \<Rightarrow> date_obj \<Rightarrow> real \<times> real \<Rightarrow> lot \<Rightarrow> real \<times> real" where
  "discount_step other p saleDate acc l =
     (let heldYears = yearsBetween (new_Date other (Str (lot.date l)))
                                   (Num (real_of_int (getTime saleDate)));
          g = qty l * (p - lot.price l);
          eligible = (if js_ge heldYears (Num 1) then 0.5 * max 0 g else max 0 g)
      in (fst acc + max 0 g, snd acc + eligible))"

text \<open>\<open>handleSell(ticker, amount)\<close>; \<open>saleDate\<close> is \<open>new Date()\<close>.\<close>

definition handleSell ::
  "(string \<Rightarrow> int option) \<Rightarrow> string \<Rightarrow> jsnum \<Rightarrow> date_obj \<Rightarrow> string \<Rightarrow> state \<Rightarrow> state" where
  "handleSell other tk amountArg saleDate uuid s =
     (let amt = max 0 (or_zero amountArg) in
      case find (\<lambda>x. asset.ticker x = tk) (assets s) of
        None \<Rightarrow> s
      | Some a \<Rightarrow>
          if asset.price a = 0 \<or> amt \<le> 0 then s
          else
            let u = amt / asset.price a;
                r = consumeLotsFIFO (lots a) u
            in if unfilled r > 1 / 10 ^ 9 then s
               else
                 let pr = u * asset.price a;
                     cb = foldl (\<lambda>acc l. acc + qty l * lot.price l) 0 (consumed r);
                     discounted = foldl (discount_step other (asset.price a) saleDate) (0, 0)
                                    (consumed r)
                 in addTransaction uuid
                      \<lparr>tx_id = [], kind = ''SELL'', ticker = tk, amount = amt, units = u,
                       price = asset.price a, proceeds = Some pr, costBase = Some cb,
                       gain = Some (pr - cb), discountGain = Some (snd discounted),
                       date = Str (toISOString saleDate)\<rparr>
                      (updateAsset tk
                         (\<lambda>x. x\<lparr>asset.units := max 0 (asset.units a - u),
                                 lots := newLots r\<rparr>) s))"

section \<open>CAGR\<close>

text \<open>
  \<open>getCAGR(asset)\<close>; \<open>now\<close> is the time value of \<open>new Date()\<close>. \<open>Math.pow\<close> of a positive
  base is \<open>powr\<close>; with \<open>years\<close> NaN the result is NaN.
\<close>

definition getCAGR :: "(string \<Rightarrow> int option) \<Rightarrow> asset \<Rightarrow> int \<Rightarrow> jsnum" where
  "getCAGR other a now =
     (if \<not> truthy (firstContribution a) \<or> invested a \<le> 0 then Num 0
      else
        let years = yearsBetween (new_Date other (firstContribution a)) (Num (real_of_int now))
        in if js_le years (Num 0) then Num 0
           else
             let v = asset.units a * asset.price a
             in if v \<le> 0 then Num (- 1)
                else (case years of
                        Num y \<Rightarrow> Num ((v / invested a) powr (1 / y) - 1)
                      | NaN \<Rightarrow> NaN))"

section \<open>The allocation planner\<close>

text \<open>
  The planner's three text fields, each as the value of \<open>Number(field)\<close>, and a row of the
  plan; \<open>units\<close> is \<open>null\<close> (\<open>None\<close>) when the asset has no price.
\<close>

record planner =
  budget :: jsnum
  bufferPct :: jsnum
  fees :: jsnum

record plan_row =
  ticker :: string
  name :: string
  weight :: real
  amount :: real
  units :: "real option"
  price :: real

definition spendable :: "planner \<Rightarrow> real" where
  "spendable p =
     (let b = max 0 (or_zero (budget p));
          f = max 0 (or_zero (fees p));
          bp = max 0 (or_zero (bufferPct p))
      in max 0 (b - f - b * (bp / 100)))"

definition totalWeights :: "asset list \<Rightarrow> real" where
  "totalWeights as =
     (let w = foldl (\<lambda>s a. s + targetWeight a) 0 as in if w = 0 then 1 else w)"

definition plannedSplits :: "planner \<Rightarrow> asset list \<Rightarrow> plan_row list" where
  "plannedSplits p as =
     (if spendable p \<le> 0 then []
      else
        map (\<lambda>a.
          let amt = spendable p * (targetWeight a / totalWeights as)
          in \<lparr>ticker = asset.ticker a, name = asset.name a, weight = targetWeight a,
              amount = amt,
              units = (if asset.price a > 0 then Some (amt / asset.price a) else None),
              price = asset.price a\<rparr>) as)"

section \<open>Rebalancing suggestions\<close>

text \<open>\<open>totals.value\<close>, the market value of the portfolio.\<close>

definition totals_value :: "asset list \<Rightarrow> real" where
  "totals_value as = foldl (\<lambda>s a. s + asset.units a * asset.price a) 0 as"

record rebalance =
  enabled :: bool
  thresholdPct :: real

record delta =
  ticker :: string
  name :: string
  diffPct :: real
  currentWeight :: real

text \<open>
  \<open>Array.prototype.sort(cmp)\<close>: stable since ECMAScript 2019, so for a comparator that is
  a difference of keys the result is that of a stable insertion sort, which places an element
  before the first one that \<open>cmp\<close> does not put ahead of it.
\<close>

fun insert_cmp :: "('a \<Rightarrow> 'a \<Rightarrow> real) \<Rightarrow> 'a \<Rightarrow> 'a list \<Rightarrow> 'a list" where
  "insert_cmp cmp x [] = [x]"
| "insert_cmp cmp x (y # ys) = (if cmp x y \<le> 0 then x # y # ys else y # insert_cmp cmp x ys)"

definition js_sort :: "('a \<Rightarrow> 'a \<Rightarrow> real) \<Rightarrow> 'a list \<Rightarrow> 'a list" where
  "js_sort cmp xs = foldr (insert_cmp cmp) xs []"

definition deltas :: "asset list \<Rightarrow> delta list" where
  "deltas as =
     map (\<lambda>a.
       let cw = (if totals_value as > 0 then asset.units a * asset.price a / totals_value as
                 else 0);
           d = (cw - targetWeight a) * 100
       in \<lparr>ticker = asset.ticker a, name = asset.name a, diffPct = d, currentWeight = cw\<rparr>) as"

definition suggestions :: "asset list \<Rightarrow> rebalance \<Rightarrow> delta list" where
  "suggestions as rb =
     (if \<not> enabled rb \<or> totals_value as \<le> 0 then []
      else
        let out = filter (\<lambda>d. \<bar>diffPct d\<bar> \<ge> thresholdPct rb) (deltas as)
        in js_sort (\<lambda>a b. \<bar>diffPct b\<bar> - \<bar>diffPct a\<bar>) out)"

section \<open>The capital gains summary of a financial year\<close>

record fy_summary =
  events :: nat
  grossGain :: real
  discountGain :: real

text \<open>The test of the filter in \<open>CGTSummaryFY\<close>, for the two bounds \<open>start\<close> and \<open>end\<close>.\<close>

definition in_fy :: "(string \<Rightarrow> int option) \<Rightarrow> jsnum \<Rightarrow> jsnum \<Rightarrow> tx \<Rightarrow> bool" where
  "in_fy other start end t =
     (kind t = ''SELL'' \<and> truthy (tx.date t)
      \<and> js_ge (new_Date other (tx.date t)) start \<and> js_le (new_Date other (tx.date t)) end)"

definition CGTSummaryFY :: "(string \<Rightarrow> int option) \<Rightarrow> tx list \<Rightarrow> int \<Rightarrow> fy_summary" where
  "CGTSummaryFY other txs fyStartYear =
     (let start = new_Date other (Str (string_of_int fyStartYear @ ''-07-01T00:00:00.000Z''));
          end = new_Date other (Str (string_of_int (fyStartYear + 1) @ ''-06-30T23:59:59.999Z''));
          sells = filter (in_fy other start end) txs
      in \<lparr>events = length sells,
          grossGain = foldl (\<lambda>s t. s + max 0 (opt_or_zero (gain t))) 0 sells,
          discountGain = foldl (\<lambda>s t. s + max 0 (opt_or_zero (tx.discountGain t))) 0 sells\<rparr>)"

section \<open>Import of a backup\<close>









section \<open>Reference definitions for the statements\<close>

text \<open>
  The holding-period rule in the words of the specification: a lot is long-term when the
  sale is at least one year of 365.25 days after its acquisition date; half of its
  non-negative gain is eligible then, and all of it otherwise.
\<close>

definition spec_held_one_year :: "(string \<Rightarrow> int option) \<Rightarrow> date_obj \<Rightarrow> lot \<Rightarrow> bool" where
  "spec_held_one_year other saleDate l =
     (case Date_parse other (lot.date l) of
        None \<Rightarrow> False
      | Some t \<Rightarrow> real_of_int (getTime saleDate - t) \<ge> 365.25 * (24 * 60 * 60 * 1000))"

definition spec_eligible_gain :: "(string \<Rightarrow> int option) \<Rightarrow> real \<Rightarrow> date_obj \<Rightarrow> lot \<Rightarrow> real" where
  "spec_eligible_gain other p saleDate l =
     (if spec_held_one_year other saleDate l then max 0 (qty l * (p - lot.price l)) / 2
      else max 0 (qty l * (p - lot.price l)))"

text \<open>
  A portfolio for the examples: five units of VGS at a price of 10, bought as three units
  at 8 on 1 January 2020 and two units at 12 on 1 March 2024, and a sale on 1 July 2024.
\<close>

definition example_asset :: asset where
  "example_asset =
     \<lparr>asset.ticker = ''VGS'', asset.name = ''VGS - Intl Shares'', targetWeight = 0.35,
      asset.price = 10, asset.units = 5, invested = 48,
      lots = [\<lparr>qty = 3, price = 8, date = ''2020-01-01T00:00:00.000Z''\<rparr>,
              \<lparr>qty = 2, price = 12, date = ''2024-03-01T00:00:00.000Z''\<rparr>],
      firstContribution = Str ''2020-01-01T00:00:00.000Z''\<rparr>"

definition example_state :: state where
  "example_state = \<lparr>assets = [example_asset], txn = []\<rparr>"

definition example_sale_date :: date_obj where
  "example_sale_date = \<lparr>getTime = 1719792000000, toISOString = ''2024-07-01T00:00:00.000Z''\<rparr>"

text \<open>
  An asset of the data model (section 3 of the specification: a price that is not negative,
  lots of quantities that are not negative) whose lot quantities sum to \<open>units\<close> within the
  tolerance \<open>eps\<close>.
\<close>

definition asset_ok :: "real \<Rightarrow> asset \<Rightarrow> bool" where
  "asset_ok eps x =
     (0 \<le> asset.price x \<and> list_all (\<lambda>l. 0 \<le> qty l) (lots x)
      \<and> \<bar>total_qty (lots x) - asset.units x\<bar> \<le> eps)"

text \<open>
  The failed preconditions of a trade: an amount that is not a number or not positive, a
  price that is not positive, and, for a sell, more units than the lots hold.
\<close>

definition bad_amount :: "jsnum \<Rightarrow> bool" where
  "bad_amount x = (case x of NaN \<Rightarrow> True | Num n \<Rightarrow> n \<le> 0)"

definition price_not_positive :: "state \<Rightarrow> string \<Rightarrow> bool" where
  "price_not_positive s tk =
     (case find (\<lambda>x. asset.ticker x = tk) (assets s) of
        None \<Rightarrow> False
      | Some a \<Rightarrow> asset.price a \<le> 0)"

definition insufficient_units :: "state \<Rightarrow> string \<Rightarrow> jsnum \<Rightarrow> bool" where
  "insufficient_units s tk amountArg =
     (case find (\<lambda>x. asset.ticker x = tk) (assets s) of
        None \<Rightarrow> False
      | Some a \<Rightarrow>
          unfilled (consumeLotsFIFO (lots a) (max 0 (or_zero amountArg) / asset.price a))
            > 1 / 10 ^ 9)"

text \<open>
  The financial year in the words of the specification: from 1 July of the start year at
  00:00:00.000 to 30 June of the next year at 23:59:59.999, both inclusive, in UTC. A SELL
  lies in it when it has a date and that date, as an instant, is between the two bounds.
\<close>

definition fy_window_start :: "int \<Rightarrow> int" where
  "fy_window_start y = utc_ms y 7 1 0 0 0 0"

definition fy_window_end :: "int \<Rightarrow> int" where
  "fy_window_end y = utc_ms (y + 1) 6 30 23 59 59 999"

definition spec_in_window :: "(string \<Rightarrow> int option) \<Rightarrow> int \<Rightarrow> tx \<Rightarrow> bool" where
  "spec_in_window other y t =
     (kind t = ''SELL''
      \<and> (case tx.date t of
            Str d \<Rightarrow>
              d \<noteq> []
              \<and> (case Date_parse other d of
                    Some ms \<Rightarrow> fy_window_start y \<le> ms \<and> ms \<le> fy_window_end y
                  | None \<Rightarrow> False)
          | _ \<Rightarrow> False))"

text \<open>
  The two template literals of \<open>CGTSummaryFY\<close> for a start year are read by \<open>new Date\<close>
  as the two bounds of that window.
\<close>

definition literals_parse :: "(string \<Rightarrow> int option) \<Rightarrow> int \<Rightarrow> bool" where
  "literals_parse other y =
     (new_Date other (Str (string_of_int y @ ''-07-01T00:00:00.000Z''))
        = Num (real_of_int (fy_window_start y))
      \<and> new_Date other (Str (string_of_int (y + 1) @ ''-06-30T23:59:59.999Z''))
        = Num (real_of_int (fy_window_end y)))"

text \<open>
  Transactions for the examples: two sales at the two sides of the boundary between the
  financial years starting 2023 and 2024, and a buy.
\<close>

definition example_sell :: "string \<Rightarrow> real \<Rightarrow> real \<Rightarrow> tx" where
  "example_sell d g dg =
     \<lparr>tx_id = ''id-0'', kind = ''SELL'', tx.ticker = ''VGS'', tx.amount = 100, tx.units = 10,
      tx.price = 10, proceeds = Some 100, costBase = Some (100 - g), gain = Some g,
      tx.discountGain = Some dg, tx.date = Str d\<rparr>"

definition example_txs :: "tx list" where
  "example_txs =
     [example_sell ''2024-06-30T23:59:59.999Z'' 10 5,
      example_sell ''2024-07-01T00:00:00.000Z'' (- 3) 0,
      (example_sell ''2024-01-01T00:00:00.000Z'' 7 7)\<lparr>kind := ''BUY''\<rparr>]"

text \<open>
  The spendable amount as the specification writes it, from a budget, a flat fee and a
  buffer percentage, and the sum of the target weights.
\<close>

definition spec_spendable :: "real \<Rightarrow> real \<Rightarrow> real \<Rightarrow> real" where
  "spec_spendable b f bp = max 0 (b - f - b * bp / 100)"

definition weight_sum :: "asset list \<Rightarrow> real" where
  "weight_sum as = (\<Sum>a\<leftarrow>as. targetWeight a)"

text \<open>
  The assets the component starts with: \<open>DEFAULT_ASSETS\<close>, each with price, units and
  invested at 0, no lots and no first contribution (the dash of the names is a hyphen here).
\<close>

definition initial_asset :: "string \<Rightarrow> string \<Rightarrow> real \<Rightarrow> asset" where
  "initial_asset tk nm w =
     \<lparr>asset.ticker = tk, asset.name = nm, targetWeight = w, asset.price = 0, asset.units = 0,
      invested = 0, lots = [], firstContribution = Null\<rparr>"

definition DEFAULT_ASSETS :: "asset list" where
  "DEFAULT_ASSETS =
     [initial_asset ''VGS'' ''VGS - Intl Shares'' 0.35,
      initial_asset ''VGE'' ''VGE - EM Shares'' 0.15,
      initial_asset ''A200'' ''A200 - Aus Shares'' 0.30,
      initial_asset ''VAF'' ''VAF - Aus Bonds'' 0.10,
      initial_asset ''GOLD'' ''GOLD - Physical ETF'' 0.10]"

definition initial_state :: state where
  "initial_state = \<lparr>assets = DEFAULT_ASSETS, txn = []\<rparr>"




text \<open>
  The years between two time values, a year being 365.25 days, as the specification of the
  CAGR measures them.
\<close>

definition spec_years :: "int \<Rightarrow> int \<Rightarrow> real" where
  "spec_years t0 now = real_of_int (now - t0) / (365.25 * 24 * 60 * 60 * 1000)"

text \<open>
  A portfolio for the example of the rebalancing suggestions: VGS and GOLD worth 50 each
  and VAF (target weight 0.02) with no units.
\<close>

definition example_portfolio :: "asset list" where
  "example_portfolio =
     [example_asset,
      (initial_asset ''GOLD'' ''GOLD - Physical ETF'' 0.10)\<lparr>asset.price := 10, asset.units := 5\<rparr>,
      (initial_asset ''VAF'' ''VAF - Aus Bonds'' 0.02)\<lparr>asset.price := 10\<rparr>]"

section \<open>Properties of the FIFO helper\<close>

lemma total_qty_simps [simp]:
  "total_qty [] = 0"
  "total_qty (l # ls) = qty l + total_qty ls"
  "total_qty (xs @ ys) = total_qty xs + total_qty ys"
  by (simp_all add: total_qty_def)

text \<open>The loop body, by cases on how the lot compares with what is still to sell.\<close>

lemma consume_step_cases:
  "consume_step (c, r, n) l =
     (if r \<le> 0 then (c, r, n @ [l])
      else if r < qty l then (c @ [l\<lparr>qty := r\<rparr>], 0, n @ [l\<lparr>qty := qty l - r\<rparr>])
      else if 0 < qty l then (c @ [l], r - qty l, n)
      else (c, r - qty l, n))"
  by (simp add: consume_step_def Let_def min_def)

lemma consume_step_inv:
  assumes "0 \<le> qty l" and "0 \<le> r" and "consume_step (c, r, n) l = (c1, r1, n1)"
  shows "total_qty c1 + r1 = total_qty c + r"
    and "0 \<le> r1"
    and "total_qty n1 + total_qty c1 = total_qty n + total_qty c + qty l"
    and "(\<forall>x \<in> set n. 0 \<le> qty x) \<Longrightarrow> (\<forall>x \<in> set n1. 0 \<le> qty x)"
  using assms by (auto simp: consume_step_cases split: if_splits)

text \<open>
  One traversal, started from any loop state with a non-negative \<open>remaining\<close>: what is
  taken leaves \<open>remaining\<close>, what is not taken stays in \<open>newLots\<close>.
\<close>

lemma consume_loop_inv:
  assumes "\<forall>l \<in> set ls. 0 \<le> qty l" and "0 \<le> r"
    and "consume_loop ls (c, r, n) = (c', r', n')"
  shows "total_qty c' + r' = total_qty c + r
       \<and> 0 \<le> r'
       \<and> total_qty n' + total_qty c' = total_qty n + total_qty c + total_qty ls
       \<and> ((\<forall>l \<in> set n. 0 \<le> qty l) \<longrightarrow> (\<forall>l \<in> set n'. 0 \<le> qty l))"
  using assms
proof (induction ls arbitrary: c r n)
  case Nil
  then show ?case by simp
next
  case (Cons l ls)
  obtain c1 r1 n1 where step: "consume_step (c, r, n) l = (c1, r1, n1)"
    by (cases "consume_step (c, r, n) l") auto
  have ql: "0 \<le> qty l" and qls: "\<forall>x \<in> set ls. 0 \<le> qty x"
    using Cons.prems(1) by simp_all
  note one = consume_step_inv [OF ql Cons.prems(2) step]
  have rest: "consume_loop ls (c1, r1, n1) = (c', r', n')"
    using Cons.prems(3) step by simp
  note ih = Cons.IH [OF qls one(2) rest]
  have "total_qty c' + r' = total_qty c + r"
    using ih one(1) by simp
  moreover have "0 \<le> r'"
    using ih by simp
  moreover have "total_qty n' + total_qty c' = total_qty n + total_qty c + total_qty (l # ls)"
    using ih one(3) by simp
  moreover have "(\<forall>x \<in> set n. 0 \<le> qty x) \<longrightarrow> (\<forall>x \<in> set n'. 0 \<le> qty x)"
    using ih one(4) by blast
  ultimately show ?case by blast
qed

text \<open>
  C1. For lots with non-negative quantities and a non-negative sell quantity,
  \<open>consumeLotsFIFO\<close> returns consumed lots, residual lots and \<open>unfilled\<close> such that the
  consumed quantity plus \<open>unfilled\<close> is the sell quantity, the residual quantity plus the
  consumed quantity is the original quantity, and no residual lot has a negative quantity.
  (Exact arithmetic: the identities hold with tolerance 0.)
\<close>

theorem consumeLotsFIFO_conservation:
  assumes "\<forall>l \<in> set ls. 0 \<le> qty l" and "0 \<le> sellQty"
  shows "total_qty (consumed (consumeLotsFIFO ls sellQty)) + unfilled (consumeLotsFIFO ls sellQty)
           = sellQty
       \<and> total_qty (newLots (consumeLotsFIFO ls sellQty))
           + total_qty (consumed (consumeLotsFIFO ls sellQty)) = total_qty ls
       \<and> (\<forall>l \<in> set (newLots (consumeLotsFIFO ls sellQty)). 0 \<le> qty l)"
proof -
  obtain c r n where run: "consume_loop ls ([], sellQty, []) = (c, r, n)"
    by (cases "consume_loop ls ([], sellQty, [])") auto
  have inv: "total_qty c + r = sellQty \<and> 0 \<le> r \<and> total_qty n + total_qty c = total_qty ls
           \<and> (\<forall>l \<in> set n. 0 \<le> qty l)"
    using consume_loop_inv [OF assms run] by simp
  show ?thesis using inv run by (simp add: consumeLotsFIFO_def)
qed

text \<open>
  The smoke test of the source (\<open>fifoSmokeTest\<close>): lots of 2 at 100 and 3 at 200, sell 4.
\<close>

theorem consumeLotsFIFO_conservation_witness:
  "total_qty (consumed (consumeLotsFIFO
       [\<lparr>qty = 2, price = 100, date = ''2020-01-01''\<rparr>,
        \<lparr>qty = 3, price = 200, date = ''2021-01-01''\<rparr>] 4))
     + unfilled (consumeLotsFIFO
       [\<lparr>qty = 2, price = 100, date = ''2020-01-01''\<rparr>,
        \<lparr>qty = 3, price = 200, date = ''2021-01-01''\<rparr>] 4) = 4
   \<and> consumeLotsFIFO
       [\<lparr>qty = 2, price = 100, date = ''2020-01-01''\<rparr>,
        \<lparr>qty = 3, price = 200, date = ''2021-01-01''\<rparr>] 4
     = \<lparr>consumed = [\<lparr>qty = 2, price = 100, date = ''2020-01-01''\<rparr>,
                    \<lparr>qty = 2, price = 200, date = ''2021-01-01''\<rparr>],
        newLots = [\<lparr>qty = 1, price = 200, date = ''2021-01-01''\<rparr>],
        unfilled = 0\<rparr>"
proof -
  have ev: "consumeLotsFIFO
       [\<lparr>qty = 2, price = 100, date = ''2020-01-01''\<rparr>,
        \<lparr>qty = 3, price = 200, date = ''2021-01-01''\<rparr>] 4
     = \<lparr>consumed = [\<lparr>qty = 2, price = 100, date = ''2020-01-01''\<rparr>,
                    \<lparr>qty = 2, price = 200, date = ''2021-01-01''\<rparr>],
        newLots = [\<lparr>qty = 1, price = 200, date = ''2021-01-01''\<rparr>],
        unfilled = 0\<rparr>"
    by (simp add: consumeLotsFIFO_def consume_step_def)
  have "total_qty (consumed (consumeLotsFIFO
       [\<lparr>qty = 2, price = 100, date = ''2020-01-01''\<rparr>,
        \<lparr>qty = 3, price = 200, date = ''2021-01-01''\<rparr>] 4))
     + unfilled (consumeLotsFIFO
       [\<lparr>qty = 2, price = 100, date = ''2020-01-01''\<rparr>,
        \<lparr>qty = 3, price = 200, date = ''2021-01-01''\<rparr>] 4) = 4"
    using consumeLotsFIFO_conservation
      [of "[\<lparr>qty = 2, price = 100, date = ''2020-01-01''\<rparr>,
            \<lparr>qty = 3, price = 200, date = ''2021-01-01''\<rparr>]" 4]
    by simp
  then show ?thesis using ev by simp
qed

section \<open>Selling\<close>

lemma foldl_plus_sum_list:
  fixes a :: real
  shows "foldl (\<lambda>s x. s + f x) a xs = a + sum_list (map f xs)"
  by (induction xs arbitrary: a) simp_all

lemma held_years_ge_one:
  "js_ge (yearsBetween (new_Date other (Str (lot.date l))) (Num (real_of_int (getTime saleDate))))
         (Num 1)
   = spec_held_one_year other saleDate l"
  by (simp add: spec_held_one_year_def split: option.splits)

lemma discount_step_eligible:
  "discount_step other p saleDate acc l =
     (fst acc + max 0 (qty l * (p - lot.price l)), snd acc + spec_eligible_gain other p saleDate l)"
  unfolding discount_step_def Let_def spec_eligible_gain_def held_years_ge_one by simp

lemma foldl_discount_step:
  "foldl (discount_step other p saleDate) acc ls =
     (fst acc + sum_list (map (\<lambda>l. max 0 (qty l * (p - lot.price l))) ls),
      snd acc + sum_list (map (spec_eligible_gain other p saleDate) ls))"
  by (induction ls arbitrary: acc) (simp_all add: discount_step_eligible)

text \<open>
  C2. A sell that meets its preconditions (a positive price, a positive amount, and FIFO
  consumption with \<open>unfilled\<close> within the tolerance) prepends one SELL transaction whose
  \<open>gain\<close> is proceeds minus cost base (no floor, so it may be negative) and whose
  \<open>discountGain\<close> is the sum over the consumed lots of half the lot's non-negative gain
  when the lot was held at least one 365.25-day year and of its full non-negative gain
  otherwise; the asset gets its units reduced by the units sold and floored at 0 and the
  FIFO residual as its lots, and \<open>invested\<close> is unchanged.
\<close>

theorem handleSell_records_sale:
  assumes found: "find (\<lambda>x. asset.ticker x = tk) (assets s) = Some a"
    and price: "0 < asset.price a"
    and amt: "0 < n"
    and filled: "unfilled (consumeLotsFIFO (lots a) (n / asset.price a)) \<le> 1 / 10 ^ 9"
  shows "let u = n / asset.price a;
             r = consumeLotsFIFO (lots a) u;
             s' = handleSell other tk (Num n) saleDate uuid s
         in (\<exists>t. txn s' = t # txn s
               \<and> kind t = ''SELL''
               \<and> tx.units t = u
               \<and> proceeds t = Some (u * asset.price a)
               \<and> costBase t = Some (\<Sum>l\<leftarrow>consumed r. qty l * lot.price l)
               \<and> gain t = Some (u * asset.price a - (\<Sum>l\<leftarrow>consumed r. qty l * lot.price l))
               \<and> tx.discountGain t
                   = Some (\<Sum>l\<leftarrow>consumed r. spec_eligible_gain other (asset.price a) saleDate l))
          \<and> assets s' = map (\<lambda>x. if asset.ticker x = tk
                                   then x\<lparr>asset.units := max 0 (asset.units a - u),
                                          lots := newLots r\<rparr>
                                   else x) (assets s)
          \<and> map invested (assets s') = map invested (assets s)"
proof -
  have nf: "\<not> unfilled (consumeLotsFIFO (lots a) (n / asset.price a)) > 1 / 10 ^ 9"
    using filled by simp
  show ?thesis
    using found price amt nf
    by (simp add: handleSell_def Let_def addTransaction_def updateAsset_def
        foldl_plus_sum_list foldl_discount_step comp_def max_absorb2)
qed

text \<open>Evaluation of the example sale: four units of the example asset, sold at 10.\<close>

lemma parse_2020: "parse_iso_utc ''2020-01-01T00:00:00.000Z'' = Some 1577836800000"
  by code_simp

lemma parse_2024_03: "parse_iso_utc ''2024-03-01T00:00:00.000Z'' = Some 1709251200000"
  by code_simp

lemma example_fifo:
  "consumeLotsFIFO (lots example_asset) 4 =
     \<lparr>consumed = [\<lparr>qty = 3, price = 8, date = ''2020-01-01T00:00:00.000Z''\<rparr>,
                   \<lparr>qty = 1, price = 12, date = ''2024-03-01T00:00:00.000Z''\<rparr>],
      newLots = [\<lparr>qty = 1, price = 12, date = ''2024-03-01T00:00:00.000Z''\<rparr>],
      unfilled = 0\<rparr>"
  by (simp add: example_asset_def consumeLotsFIFO_def consume_step_def)

theorem handleSell_records_sale_witness:
  "(\<exists>t. txn (handleSell (\<lambda>_. None) ''VGS'' (Num 40) example_sale_date ''id-1'' example_state)
          = [t]
      \<and> kind t = ''SELL'' \<and> tx.units t = 4 \<and> proceeds t = Some 40 \<and> costBase t = Some 36
      \<and> gain t = Some 4 \<and> tx.discountGain t = Some 3)
   \<and> assets (handleSell (\<lambda>_. None) ''VGS'' (Num 40) example_sale_date ''id-1'' example_state)
       = [example_asset\<lparr>asset.units := 1,
            lots := [\<lparr>qty = 1, price = 12, date = ''2024-03-01T00:00:00.000Z''\<rparr>]\<rparr>]"
proof -
  have found: "find (\<lambda>x. asset.ticker x = ''VGS'') (assets example_state) = Some example_asset"
    by (simp add: example_state_def example_asset_def)
  have price: "0 < asset.price example_asset" and p10: "asset.price example_asset = 10"
    and u5: "asset.units example_asset = 5"
    and tk: "asset.ticker example_asset = ''VGS''"
    by (simp_all add: example_asset_def)
  have amt: "0 < (40::real)" by simp
  have filled: "unfilled (consumeLotsFIFO (lots example_asset) (40 / asset.price example_asset))
                  \<le> 1 / 10 ^ 9"
    by (simp add: p10 example_fifo)
  have e1: "spec_eligible_gain (\<lambda>_. None) 10 example_sale_date
              \<lparr>qty = 3, price = 8, date = ''2020-01-01T00:00:00.000Z''\<rparr> = 3"
    by (simp add: spec_eligible_gain_def spec_held_one_year_def Date_parse_def parse_2020
        example_sale_date_def)
  have e2: "spec_eligible_gain (\<lambda>_. None) 10 example_sale_date
              \<lparr>qty = 1, price = 12, date = ''2024-03-01T00:00:00.000Z''\<rparr> = 0"
    by (simp add: spec_eligible_gain_def spec_held_one_year_def Date_parse_def parse_2024_03
        example_sale_date_def)
  show ?thesis
    using handleSell_records_sale [OF found price amt filled,
        of "\<lambda>_. None" example_sale_date "''id-1''"]
    by (simp add: Let_def p10 u5 tk example_fifo e1 e2 example_state_def)
qed

section \<open>Trades that do nothing, and the invariant of the lots\<close>

text \<open>More on the FIFO helper: \<open>unfilled\<close> is positive only when every lot was used up.\<close>

lemma consume_step_unfilled:
  assumes "0 \<le> qty l" and "0 \<le> r" and "consume_step (c, r, n) l = (c1, r1, n1)"
  shows "r1 \<le> r" and "0 < r1 \<Longrightarrow> n1 = n"
  using assms by (auto simp: consume_step_cases split: if_splits)

lemma consume_loop_unfilled:
  assumes "\<forall>l \<in> set ls. 0 \<le> qty l" and "0 \<le> r"
    and "consume_loop ls (c, r, n) = (c', r', n')"
  shows "r' \<le> r \<and> (0 < r' \<longrightarrow> n' = n)"
  using assms
proof (induction ls arbitrary: c r n)
  case Nil
  then show ?case by simp
next
  case (Cons l ls)
  obtain c1 r1 n1 where step: "consume_step (c, r, n) l = (c1, r1, n1)"
    by (cases "consume_step (c, r, n) l") auto
  have ql: "0 \<le> qty l" and qls: "\<forall>x \<in> set ls. 0 \<le> qty x"
    using Cons.prems(1) by simp_all
  note one = consume_step_unfilled [OF ql Cons.prems(2) step]
  have r1: "0 \<le> r1"
    using consume_step_inv(2) [OF ql Cons.prems(2) step] .
  have rest: "consume_loop ls (c1, r1, n1) = (c', r', n')"
    using Cons.prems(3) step by simp
  note ih = Cons.IH [OF qls r1 rest]
  show ?case using ih one by auto
qed

lemma consumeLotsFIFO_facts:
  assumes "\<forall>l \<in> set ls. 0 \<le> qty l" and "0 \<le> q"
  shows "total_qty (consumed (consumeLotsFIFO ls q)) + unfilled (consumeLotsFIFO ls q) = q"
    and "total_qty (newLots (consumeLotsFIFO ls q)) + total_qty (consumed (consumeLotsFIFO ls q))
           = total_qty ls"
    and "\<forall>l \<in> set (newLots (consumeLotsFIFO ls q)). 0 \<le> qty l"
    and "0 \<le> unfilled (consumeLotsFIFO ls q)"
    and "0 < unfilled (consumeLotsFIFO ls q) \<Longrightarrow> newLots (consumeLotsFIFO ls q) = []"
proof -
  obtain c r n where run: "consume_loop ls ([], q, []) = (c, r, n)"
    by (cases "consume_loop ls ([], q, [])") auto
  have inv: "total_qty c + r = q \<and> 0 \<le> r \<and> total_qty n + total_qty c = total_qty ls
           \<and> (\<forall>l \<in> set n. 0 \<le> qty l)"
    using consume_loop_inv [OF assms run] by simp
  have unf: "r \<le> q \<and> (0 < r \<longrightarrow> n = [])"
    using consume_loop_unfilled [OF assms run] .
  have R: "consumeLotsFIFO ls q = \<lparr>consumed = c, newLots = n, unfilled = max 0 r\<rparr>"
    using run by (simp add: consumeLotsFIFO_def)
  show "total_qty (consumed (consumeLotsFIFO ls q)) + unfilled (consumeLotsFIFO ls q) = q"
    using inv by (simp add: R)
  show "total_qty (newLots (consumeLotsFIFO ls q)) + total_qty (consumed (consumeLotsFIFO ls q))
           = total_qty ls"
    using inv by (simp add: R)
  show "\<forall>l \<in> set (newLots (consumeLotsFIFO ls q)). 0 \<le> qty l"
    using inv by (simp add: R)
  show "0 \<le> unfilled (consumeLotsFIFO ls q)"
    by (simp add: R)
  show "0 < unfilled (consumeLotsFIFO ls q) \<Longrightarrow> newLots (consumeLotsFIFO ls q) = []"
    using unf by (simp add: R)
qed

text \<open>The arithmetic of a sale on the invariant.\<close>

lemma sale_keeps_tolerance:
  fixes S S' C unf u un eps :: real
  assumes "S' + C = S" and "C + unf = u" and "0 \<le> unf" and "0 \<le> S'"
    and "0 < unf \<Longrightarrow> S' = 0" and "\<bar>S - un\<bar> \<le> eps"
  shows "\<bar>S' - max 0 (un - u)\<bar> \<le> eps"
proof (cases "0 < unf")
  case True
  then have "S' = 0" using assms(5) by simp
  then show ?thesis using assms True by (auto simp: max_def abs_if split: if_splits)
next
  case False
  then have "unf = 0" using assms(3) by simp
  then show ?thesis using assms by (auto simp: max_def abs_if split: if_splits)
qed

lemma total_qty_nonneg: "\<forall>l \<in> set ls. 0 \<le> qty l \<Longrightarrow> 0 \<le> total_qty ls"
  by (induction ls) simp_all

lemma find_in_set: "find P xs = Some a \<Longrightarrow> a \<in> set xs"
  by (induction xs) (auto split: if_splits)

lemma handleBuy_assets:
  "assets (handleBuy tk amountArg now1 now2 uuid s) = assets s
   \<or> (\<exists>a u. find (\<lambda>x. asset.ticker x = tk) (assets s) = Some a \<and> asset.price a \<noteq> 0
        \<and> u = max 0 (or_zero amountArg) / asset.price a \<and> 0 < max 0 (or_zero amountArg)
        \<and> assets (handleBuy tk amountArg now1 now2 uuid s)
            = map (\<lambda>x. if asset.ticker x = tk
                        then x\<lparr>asset.units := asset.units a + u,
                               invested := invested a + max 0 (or_zero amountArg),
                               lots := lots a @ [\<lparr>qty = u, price = asset.price a, date = now1\<rparr>],
                               firstContribution :=
                                 (if truthy (firstContribution a) then firstContribution a
                                  else Str now1)\<rparr>
                        else x) (assets s))"
  by (auto simp: handleBuy_def Let_def addTransaction_def updateAsset_def split: option.splits)

lemma handleSell_assets:
  "assets (handleSell other tk amountArg saleDate uuid s) = assets s
   \<or> (\<exists>a u. find (\<lambda>x. asset.ticker x = tk) (assets s) = Some a \<and> asset.price a \<noteq> 0
        \<and> u = max 0 (or_zero amountArg) / asset.price a \<and> 0 < max 0 (or_zero amountArg)
        \<and> unfilled (consumeLotsFIFO (lots a) u) \<le> 1 / 10 ^ 9
        \<and> assets (handleSell other tk amountArg saleDate uuid s)
            = map (\<lambda>x. if asset.ticker x = tk
                        then x\<lparr>asset.units := max 0 (asset.units a - u),
                               lots := newLots (consumeLotsFIFO (lots a) u)\<rparr>
                        else x) (assets s))"
  by (auto simp: handleSell_def Let_def addTransaction_def updateAsset_def split: option.splits)


lemma bad_amount_max: "bad_amount x \<Longrightarrow> max 0 (or_zero x) \<le> 0"
  by (cases x) (simp_all add: bad_amount_def)

lemma price_not_positive_zero:
  assumes "\<forall>x \<in> set (assets s). 0 \<le> asset.price x" and "price_not_positive s tk"
  shows "\<exists>a. find (\<lambda>x. asset.ticker x = tk) (assets s) = Some a \<and> asset.price a = 0"
proof -
  obtain a where f: "find (\<lambda>x. asset.ticker x = tk) (assets s) = Some a"
    and le: "asset.price a \<le> 0"
    using assms(2) by (auto simp: price_not_positive_def split: option.splits)
  have "0 \<le> asset.price a"
    using assms(1) find_in_set [OF f] by blast
  then show ?thesis using f le by simp
qed

text \<open>
  C3. On the assets of the data model (prices are not negative), a buy or a sell whose
  preconditions fail is a no-op: when the amount is not a number or not positive, when the
  asset's price is not positive, or, for a sell, when FIFO consumption reports \<open>unfilled\<close>
  above \<open>1e-9\<close>, the state, that is the assets and the transaction log, is returned
  unchanged. The two handlers have no path that throws before these tests, and the functions
  of the model are total.
\<close>

theorem failed_preconditions_are_noops:
  assumes "\<forall>x \<in> set (assets s). 0 \<le> asset.price x"
  shows "(bad_amount amountArg \<or> price_not_positive s tk
            \<longrightarrow> handleBuy tk amountArg now1 now2 uuid s = s)
       \<and> (bad_amount amountArg \<or> price_not_positive s tk \<or> insufficient_units s tk amountArg
            \<longrightarrow> handleSell other tk amountArg saleDate uuid s = s)"
proof -
  have buy: "handleBuy tk amountArg now1 now2 uuid s = s"
    if "bad_amount amountArg \<or> price_not_positive s tk"
    using that bad_amount_max [of amountArg] price_not_positive_zero [OF assms, of tk]
    by (auto simp: handleBuy_def Let_def split: option.splits)
  have sell: "handleSell other tk amountArg saleDate uuid s = s"
    if "bad_amount amountArg \<or> price_not_positive s tk \<or> insufficient_units s tk amountArg"
    using that bad_amount_max [of amountArg] price_not_positive_zero [OF assms, of tk]
    by (auto simp: handleSell_def Let_def insufficient_units_def split: option.splits)
  show ?thesis using buy sell by blast
qed

text \<open>
  No-ops: on the example state, an amount that is NaN, a negative amount, and a sale of 100
  units where 5 are held; on the initial state, where no price is set, a buy and a sell of
  1000.
\<close>

theorem failed_preconditions_are_noops_witness:
  "handleBuy ''VGS'' NaN ''2024-07-01T00:00:00.000Z'' ''2024-07-01T00:00:00.001Z'' ''id-1''
      example_state = example_state
   \<and> handleBuy ''VGS'' (Num (- 5)) ''2024-07-01T00:00:00.000Z'' ''2024-07-01T00:00:00.001Z''
      ''id-1'' example_state = example_state
   \<and> handleSell (\<lambda>_. None) ''VGS'' (Num 1000) example_sale_date ''id-1'' example_state
      = example_state
   \<and> handleBuy ''VGS'' (Num 1000) ''2024-07-01T00:00:00.000Z'' ''2024-07-01T00:00:00.001Z''
      ''id-1'' initial_state = initial_state
   \<and> handleSell (\<lambda>_. None) ''VGS'' (Num 1000) example_sale_date ''id-1'' initial_state
      = initial_state"
proof -
  have b1: "bad_amount NaN" and b2: "bad_amount (Num (- 5))"
    by (simp_all add: bad_amount_def)
  have fifo: "unfilled (consumeLotsFIFO (lots example_asset) 100) = 95"
    by (simp add: example_asset_def consumeLotsFIFO_def consume_step_def)
  have tk: "asset.ticker example_asset = ''VGS''" and p10: "asset.price example_asset = 10"
    by (simp_all add: example_asset_def)
  have ins: "insufficient_units example_state ''VGS'' (Num 1000)"
    by (simp add: insufficient_units_def example_state_def tk p10 fifo)
  have dm: "\<forall>x \<in> set (assets example_state). 0 \<le> asset.price x"
    by (simp add: example_state_def p10)
  have dm0: "\<forall>x \<in> set (assets initial_state). 0 \<le> asset.price x"
    by (simp add: initial_state_def DEFAULT_ASSETS_def initial_asset_def)
  have np: "price_not_positive initial_state ''VGS''"
    by (simp add: price_not_positive_def initial_state_def DEFAULT_ASSETS_def initial_asset_def)
  show ?thesis
    using failed_preconditions_are_noops [OF dm, of NaN "''VGS''"]
      failed_preconditions_are_noops [OF dm, of "Num (- 5)" "''VGS''"]
      failed_preconditions_are_noops [OF dm, where amountArg = "Num 1000"
        and tk = "''VGS''" and other = "\<lambda>_. None" and saleDate = example_sale_date
        and uuid = "''id-1''"]
      failed_preconditions_are_noops [OF dm0, where amountArg = "Num 1000"
        and tk = "''VGS''" and other = "\<lambda>_. None" and saleDate = example_sale_date
        and uuid = "''id-1''"]
      b1 b2 ins np
    by simp
qed

text \<open>
  C4. For the assets of the data model (a price and lot quantities that are not negative)
  whose lot quantities sum to \<open>units\<close> within a tolerance \<open>eps\<close>, every buy and every sell
  preserves the invariant: afterwards the lot quantities of every asset still sum to its
  \<open>units\<close> within \<open>eps\<close>, and the assets are still assets of the data model. The
  arithmetic is exact here; the rounding of the code's doubles is what the tolerance is for.
\<close>

theorem trades_keep_lots_and_units_together:
  assumes ok: "\<forall>x \<in> set (assets s). asset_ok eps x"
  shows "(\<forall>x \<in> set (assets (handleBuy tk amountArg now1 now2 uuid s)). asset_ok eps x)
       \<and> (\<forall>x \<in> set (assets (handleSell other tk amountArg saleDate uuid s)). asset_ok eps x)"
proof
  show "\<forall>x \<in> set (assets (handleBuy tk amountArg now1 now2 uuid s)). asset_ok eps x"
    using handleBuy_assets [of tk amountArg now1 now2 uuid s]
  proof
    assume "assets (handleBuy tk amountArg now1 now2 uuid s) = assets s"
    then show ?thesis using ok by simp
  next
    assume "\<exists>a u. find (\<lambda>x. asset.ticker x = tk) (assets s) = Some a \<and> asset.price a \<noteq> 0
        \<and> u = max 0 (or_zero amountArg) / asset.price a \<and> 0 < max 0 (or_zero amountArg)
        \<and> assets (handleBuy tk amountArg now1 now2 uuid s)
            = map (\<lambda>x. if asset.ticker x = tk
                        then x\<lparr>asset.units := asset.units a + u,
                               invested := invested a + max 0 (or_zero amountArg),
                               lots := lots a @ [\<lparr>qty = u, price = asset.price a, date = now1\<rparr>],
                               firstContribution :=
                                 (if truthy (firstContribution a) then firstContribution a
                                  else Str now1)\<rparr>
                        else x) (assets s)"
    then obtain a u where found: "find (\<lambda>x. asset.ticker x = tk) (assets s) = Some a"
      and p: "asset.price a \<noteq> 0" and u: "u = max 0 (or_zero amountArg) / asset.price a"
      and amt: "0 < max 0 (or_zero amountArg)"
      and new: "assets (handleBuy tk amountArg now1 now2 uuid s)
            = map (\<lambda>x. if asset.ticker x = tk
                        then x\<lparr>asset.units := asset.units a + u,
                               invested := invested a + max 0 (or_zero amountArg),
                               lots := lots a @ [\<lparr>qty = u, price = asset.price a, date = now1\<rparr>],
                               firstContribution :=
                                 (if truthy (firstContribution a) then firstContribution a
                                  else Str now1)\<rparr>
                        else x) (assets s)"
      by blast
    have a_ok: "asset_ok eps a" using ok find_in_set [OF found] by blast
    have upos: "0 \<le> u" using a_ok p amt u by (simp add: asset_ok_def)
    show ?thesis
      unfolding new using ok a_ok upos by (auto simp: asset_ok_def)
  qed
next
  show "\<forall>x \<in> set (assets (handleSell other tk amountArg saleDate uuid s)). asset_ok eps x"
    using handleSell_assets [of other tk amountArg saleDate uuid s]
  proof
    assume "assets (handleSell other tk amountArg saleDate uuid s) = assets s"
    then show ?thesis using ok by simp
  next
    assume "\<exists>a u. find (\<lambda>x. asset.ticker x = tk) (assets s) = Some a \<and> asset.price a \<noteq> 0
        \<and> u = max 0 (or_zero amountArg) / asset.price a \<and> 0 < max 0 (or_zero amountArg)
        \<and> unfilled (consumeLotsFIFO (lots a) u) \<le> 1 / 10 ^ 9
        \<and> assets (handleSell other tk amountArg saleDate uuid s)
            = map (\<lambda>x. if asset.ticker x = tk
                        then x\<lparr>asset.units := max 0 (asset.units a - u),
                               lots := newLots (consumeLotsFIFO (lots a) u)\<rparr>
                        else x) (assets s)"
    then obtain a u where found: "find (\<lambda>x. asset.ticker x = tk) (assets s) = Some a"
      and p: "asset.price a \<noteq> 0" and u: "u = max 0 (or_zero amountArg) / asset.price a"
      and amt: "0 < max 0 (or_zero amountArg)"
      and new: "assets (handleSell other tk amountArg saleDate uuid s)
            = map (\<lambda>x. if asset.ticker x = tk
                        then x\<lparr>asset.units := max 0 (asset.units a - u),
                               lots := newLots (consumeLotsFIFO (lots a) u)\<rparr>
                        else x) (assets s)"
      by blast
    have a_ok: "asset_ok eps a" using ok find_in_set [OF found] by blast
    have upos: "0 \<le> u" using a_ok p amt u by (simp add: asset_ok_def)
    have qs: "\<forall>l \<in> set (lots a). 0 \<le> qty l"
      using a_ok by (simp add: asset_ok_def list_all_iff)
    note f = consumeLotsFIFO_facts [OF qs upos]
    have res0: "0 \<le> total_qty (newLots (consumeLotsFIFO (lots a) u))"
      using f(3) by (rule total_qty_nonneg)
    have tol: "\<bar>total_qty (newLots (consumeLotsFIFO (lots a) u)) - max 0 (asset.units a - u)\<bar>
                 \<le> eps"
    proof (rule sale_keeps_tolerance [OF f(2) f(1) f(4) res0])
      show "0 < unfilled (consumeLotsFIFO (lots a) u)
            \<Longrightarrow> total_qty (newLots (consumeLotsFIFO (lots a) u)) = 0"
        using f(5) by simp
      show "\<bar>total_qty (lots a) - asset.units a\<bar> \<le> eps"
        using a_ok by (simp add: asset_ok_def)
    qed
    show ?thesis
      unfolding new using ok tol f(3) by (auto simp: asset_ok_def list_all_iff)
  qed
qed


text \<open>A buy of 20 and a sale of 40 on the example state, with tolerance 0.\<close>

theorem trades_keep_lots_and_units_together_witness:
  "asset_ok 0 example_asset
   \<and> list_all (asset_ok 0)
        (assets (handleBuy ''VGS'' (Num 20) ''2024-07-01T00:00:00.000Z''
                   ''2024-07-01T00:00:00.001Z'' ''id-1'' example_state))
   \<and> list_all (asset_ok 0)
        (assets (handleSell (\<lambda>_. None) ''VGS'' (Num 40) example_sale_date ''id-1''
                   example_state))"
proof -
  have a: "asset_ok 0 example_asset"
    by (simp add: asset_ok_def example_asset_def)
  then have ok: "\<forall>x \<in> set (assets example_state). asset_ok 0 x"
    by (simp add: example_state_def)
  show ?thesis
    using a trades_keep_lots_and_units_together [OF ok, of "''VGS''"]
    by (simp add: list_all_iff)
qed

section \<open>The financial-year summary\<close>

text \<open>
  The template literals of \<open>CGTSummaryFY\<close>: a year from 1000 to 9999 prints as four
  digits, and the string parses to the instant it names.
\<close>

lemma digit_val_digit_char: "d < 10 \<Longrightarrow> digit_val (digit_char d) = Some d"
  by (simp add: digit_val_def digit_char_def Let_def)

lemma string_of_nat_step: "\<not> n < 10 \<Longrightarrow> string_of_nat n = string_of_nat (n div 10) @ [digit_char (n mod 10)]"
  by (subst string_of_nat.simps) simp

lemma string_of_nat_digit: "n < 10 \<Longrightarrow> string_of_nat n = [digit_char n]"
  by (subst string_of_nat.simps) simp

lemma string_of_nat_four:
  assumes "1000 \<le> n" and "n < 10000"
  shows "string_of_nat n =
           [digit_char (n div 1000), digit_char (n div 100 mod 10),
            digit_char (n div 10 mod 10), digit_char (n mod 10)]"
proof -
  have e1: "n div 10 div 10 = n div 100" and e2: "n div 100 div 10 = n div 1000"
    by (simp_all add: div_mult2_eq [symmetric])
  have g0: "\<not> n < 10" and g1: "\<not> n div 10 < 10" and g2: "\<not> n div 100 < 10"
    and g3: "n div 1000 < 10"
    using assms by (simp_all add: div_less_iff_less_mult)
  have a: "string_of_nat n = string_of_nat (n div 10) @ [digit_char (n mod 10)]"
    using g0 by (rule string_of_nat_step)
  have b: "string_of_nat (n div 10) = string_of_nat (n div 100) @ [digit_char (n div 10 mod 10)]"
    using string_of_nat_step [OF g1] by (simp only: e1)
  have c: "string_of_nat (n div 100) = string_of_nat (n div 1000) @ [digit_char (n div 100 mod 10)]"
    using string_of_nat_step [OF g2] by (simp only: e2)
  have d: "string_of_nat (n div 1000) = [digit_char (n div 1000)]"
    using g3 by (rule string_of_nat_digit)
  show ?thesis by (simp only: a b c d append.simps)
qed

lemma digits_val_four:
  assumes "1000 \<le> n" and "n < 10000"
  shows "digits_val 0 (string_of_nat n) = Some n"
proof -
  have d3: "n div 1000 < 10" and d2: "n div 100 mod 10 < 10"
    and d1: "n div 10 mod 10 < 10" and d0: "n mod 10 < 10"
    using assms by (simp_all add: div_less_iff_less_mult)
  have e1: "n div 10 div 10 = n div 100" and e2: "n div 100 div 10 = n div 1000"
    by (simp_all add: div_mult2_eq [symmetric])
  have s0: "10 * (n div 10) + n mod 10 = n"
    by (rule mult_div_mod_eq)
  have s1: "10 * (n div 100) + n div 10 mod 10 = n div 10"
    using mult_div_mod_eq [of 10 "n div 10"] by (simp only: e1)
  have s2: "10 * (n div 1000) + n div 100 mod 10 = n div 100"
    using mult_div_mod_eq [of 10 "n div 100"] by (simp only: e2)
  have "10 * (10 * (10 * (n div 1000) + n div 100 mod 10) + n div 10 mod 10) + n mod 10 = n"
    by (simp only: s2 s1 s0)
  then show ?thesis
    by (simp add: string_of_nat_four [OF assms] digit_val_digit_char d3 d2 d1 d0)
qed


lemma suffix_digits:
  "digits_val 0 ''07'' = Some 7" "digits_val 0 ''01'' = Some 1" "digits_val 0 ''00'' = Some 0"
  "digits_val 0 ''000'' = Some 0" "digits_val 0 ''06'' = Some 6" "digits_val 0 ''30'' = Some 30"
  "digits_val 0 ''23'' = Some 23" "digits_val 0 ''59'' = Some 59" "digits_val 0 ''999'' = Some 999"
  by code_simp+

lemma parse_fy_start:
  assumes "length ys = 4" and "digits_val 0 ys = Some y"
  shows "parse_iso_utc (ys @ ''-07-01T00:00:00.000Z'') = Some (utc_ms (int y) 7 1 0 0 0 0)"
  using assms
  by (simp add: parse_iso_utc_def nth_append suffix_digits DaysInMonth_def del: digits_val.simps)

lemma parse_fy_end:
  assumes "length ys = 4" and "digits_val 0 ys = Some y"
  shows "parse_iso_utc (ys @ ''-06-30T23:59:59.999Z'') = Some (utc_ms (int y) 6 30 23 59 59 999)"
  using assms
  by (simp add: parse_iso_utc_def nth_append suffix_digits DaysInMonth_def del: digits_val.simps)

lemma parse_four_digit_year:
  assumes "1000 \<le> y" and "y \<le> 9999"
  shows "parse_iso_utc (string_of_int y @ ''-07-01T00:00:00.000Z'') = Some (utc_ms y 7 1 0 0 0 0)"
    and "parse_iso_utc (string_of_int y @ ''-06-30T23:59:59.999Z'')
           = Some (utc_ms y 6 30 23 59 59 999)"
proof -
  have n: "1000 \<le> nat y" "nat y < 10000" using assms by simp_all
  have str: "string_of_int y = string_of_nat (nat y)"
    using assms by (simp add: string_of_int_def)
  have len: "length (string_of_nat (nat y)) = 4"
    by (simp add: string_of_nat_four [OF n])
  have yy: "int (nat y) = y" using assms by simp
  show "parse_iso_utc (string_of_int y @ ''-07-01T00:00:00.000Z'') = Some (utc_ms y 7 1 0 0 0 0)"
    using parse_fy_start [OF len digits_val_four [OF n]] by (simp only: str yy)
  show "parse_iso_utc (string_of_int y @ ''-06-30T23:59:59.999Z'')
           = Some (utc_ms y 6 30 23 59 59 999)"
    using parse_fy_end [OF len digits_val_four [OF n]] by (simp only: str yy)
qed

lemma in_fy_spec:
  "in_fy other (Num (real_of_int (fy_window_start y))) (Num (real_of_int (fy_window_end y))) t
     = spec_in_window other y t"
  by (cases "tx.date t") (auto simp: in_fy_def spec_in_window_def split: option.splits)

lemma literals_parse_four_digit:
  assumes "1000 \<le> y" and "y \<le> 9998"
  shows "literals_parse other y"
proof -
  have y1: "1000 \<le> y + 1" "y + 1 \<le> 9999" and y0: "y \<le> 9999" using assms by simp_all
  have st: "new_Date other (Str (string_of_int y @ ''-07-01T00:00:00.000Z''))
              = Num (real_of_int (fy_window_start y))"
    by (simp add: Date_parse_def parse_four_digit_year(1) [OF assms(1) y0] fy_window_start_def
        del: of_int_numeral)
  have en: "new_Date other (Str (string_of_int (y + 1) @ ''-06-30T23:59:59.999Z''))
              = Num (real_of_int (fy_window_end y))"
    by (simp add: Date_parse_def parse_four_digit_year(2) [OF y1] fy_window_end_def)
  show ?thesis
    unfolding literals_parse_def using st en by (rule conjI)
qed

lemma CGTSummaryFY_window:
  assumes "literals_parse other y"
  shows "CGTSummaryFY other txs y =
           \<lparr>events = length (filter (spec_in_window other y) txs),
            grossGain = (\<Sum>t\<leftarrow>filter (spec_in_window other y) txs. max 0 (opt_or_zero (gain t))),
            discountGain =
              (\<Sum>t\<leftarrow>filter (spec_in_window other y) txs. max 0 (opt_or_zero (tx.discountGain t)))\<rparr>"
proof -
  have st: "new_Date other (Str (string_of_int y @ ''-07-01T00:00:00.000Z''))
              = Num (real_of_int (fy_window_start y))"
    and en: "new_Date other (Str (string_of_int (y + 1) @ ''-06-30T23:59:59.999Z''))
              = Num (real_of_int (fy_window_end y))"
    using assms unfolding literals_parse_def by blast+
  have flt: "filter (in_fy other (Num (real_of_int (fy_window_start y)))
                       (Num (real_of_int (fy_window_end y)))) txs
               = filter (spec_in_window other y) txs"
    by (rule filter_cong) (simp_all add: in_fy_spec)
  show ?thesis
    unfolding CGTSummaryFY_def Let_def st en flt by (simp add: foldl_plus_sum_list)
qed

lemma fy_bounds:
  "fy_window_start 2023 = 1688169600000" "fy_window_end 2023 = 1719791999999"
  "fy_window_start 2024 = 1719792000000" "fy_window_end 2024 = 1751327999999"
  by code_simp+

lemma parse_boundaries:
  "parse_iso_utc ''2024-06-30T23:59:59.999Z'' = Some 1719791999999"
  "parse_iso_utc ''2024-07-01T00:00:00.000Z'' = Some 1719792000000"
  "parse_iso_utc ''2024-01-01T00:00:00.000Z'' = Some 1704067200000"
  by code_simp+


text \<open>
  C5 (as amended). For a transaction list and a start year whose two template literals
  \<open>new Date\<close> reads as 1 July of that year at 00:00:00.000 UTC and 30 June of the next
  year at 23:59:59.999 UTC, \<open>CGTSummaryFY\<close> matches exactly the SELL transactions whose date
  lies in the inclusive window between the two, and returns their count, the sum of
  \<open>max(0, gain)\<close> and the sum of \<open>max(0, discountGain)\<close> over them; it is a function of its
  arguments, without effects. Every start year from 1000 to 9998 is such a year, whatever
  the engine: both literals are then date-time strings with a four-digit year. A SELL dated
  2024-06-30T23:59:59.999Z is counted for the year starting 2023 and not for 2024; one
  dated 2024-07-01T00:00:00.000Z is counted for 2024 and not for 2023.
\<close>

theorem CGTSummaryFY_matches_financial_year:
  "(1000 \<le> y \<and> y \<le> 9998 \<longrightarrow> literals_parse other y)
   \<and> (literals_parse other y \<longrightarrow>
        CGTSummaryFY other txs y =
          \<lparr>events = length (filter (spec_in_window other y) txs),
           grossGain = (\<Sum>t\<leftarrow>filter (spec_in_window other y) txs. max 0 (opt_or_zero (gain t))),
           discountGain =
             (\<Sum>t\<leftarrow>filter (spec_in_window other y) txs. max 0 (opt_or_zero (tx.discountGain t)))\<rparr>)
   \<and> (kind t = ''SELL'' \<and> tx.date t = Str ''2024-06-30T23:59:59.999Z''
        \<longrightarrow> events (CGTSummaryFY other [t] 2023) = 1
          \<and> events (CGTSummaryFY other [t] 2024) = 0)
   \<and> (kind t = ''SELL'' \<and> tx.date t = Str ''2024-07-01T00:00:00.000Z''
        \<longrightarrow> events (CGTSummaryFY other [t] 2024) = 1
          \<and> events (CGTSummaryFY other [t] 2023) = 0)"
proof -
  have l23: "literals_parse other 2023" and l24: "literals_parse other 2024"
    by (rule literals_parse_four_digit; simp)+
  have june: "spec_in_window other 2023 t \<and> \<not> spec_in_window other 2024 t"
    if "kind t = ''SELL''" and "tx.date t = Str ''2024-06-30T23:59:59.999Z''"
    using that by (simp add: spec_in_window_def Date_parse_def parse_boundaries fy_bounds)
  have july: "spec_in_window other 2024 t \<and> \<not> spec_in_window other 2023 t"
    if "kind t = ''SELL''" and "tx.date t = Str ''2024-07-01T00:00:00.000Z''"
    using that by (simp add: spec_in_window_def Date_parse_def parse_boundaries fy_bounds)
  have ex1: "events (CGTSummaryFY other [t] 2023) = 1 \<and> events (CGTSummaryFY other [t] 2024) = 0"
    if "kind t = ''SELL''" and "tx.date t = Str ''2024-06-30T23:59:59.999Z''"
    using june [OF that]
    by (simp add: CGTSummaryFY_window [OF l23] CGTSummaryFY_window [OF l24])
  have ex2: "events (CGTSummaryFY other [t] 2024) = 1 \<and> events (CGTSummaryFY other [t] 2023) = 0"
    if "kind t = ''SELL''" and "tx.date t = Str ''2024-07-01T00:00:00.000Z''"
    using july [OF that]
    by (simp add: CGTSummaryFY_window [OF l23] CGTSummaryFY_window [OF l24])
  show ?thesis
    using literals_parse_four_digit [of y other] CGTSummaryFY_window [of other y txs] ex1 ex2
    by blast
qed

text \<open>The summaries of the example transactions for the two years.\<close>

lemma example_windows:
  "filter (spec_in_window (\<lambda>_. None) 2023) example_txs
     = [example_sell ''2024-06-30T23:59:59.999Z'' 10 5]"
  "filter (spec_in_window (\<lambda>_. None) 2024) example_txs
     = [example_sell ''2024-07-01T00:00:00.000Z'' (- 3) 0]"
  by (simp_all add: example_txs_def example_sell_def spec_in_window_def Date_parse_def
      parse_boundaries fy_bounds)

theorem CGTSummaryFY_matches_financial_year_witness:
  "literals_parse (\<lambda>_. None) 2023 \<and> literals_parse (\<lambda>_. None) 2024
   \<and> CGTSummaryFY (\<lambda>_. None) example_txs 2023 = \<lparr>events = 1, grossGain = 10, discountGain = 5\<rparr>
   \<and> CGTSummaryFY (\<lambda>_. None) example_txs 2024 = \<lparr>events = 1, grossGain = 0, discountGain = 0\<rparr>"
proof -
  have g: "gain (example_sell d g dg) = Some g" "tx.discountGain (example_sell d g dg) = Some dg"
    for d g dg by (simp_all add: example_sell_def)
  note t23 = CGTSummaryFY_matches_financial_year
      [where y = 2023 and other = "\<lambda>_. None" and txs = example_txs]
  note t24 = CGTSummaryFY_matches_financial_year
      [where y = 2024 and other = "\<lambda>_. None" and txs = example_txs]
  have l23: "literals_parse (\<lambda>_. None) 2023" using t23 by simp
  have l24: "literals_parse (\<lambda>_. None) 2024" using t24 by simp
  have s23: "CGTSummaryFY (\<lambda>_. None) example_txs 2023
               = \<lparr>events = 1, grossGain = 10, discountGain = 5\<rparr>"
    using t23 l23 by (simp add: example_windows g)
  have s24: "CGTSummaryFY (\<lambda>_. None) example_txs 2024
               = \<lparr>events = 1, grossGain = 0, discountGain = 0\<rparr>"
    using t24 l24 by (simp add: example_windows g)
  show ?thesis using l23 l24 s23 s24 by simp
qed

text \<open>
  The claim as stated, for every start year, fails at 9999: the literal for the end of the
  year, \<open>10000-06-30T23:59:59.999Z\<close>, is not a date-time string, and on an engine that
  rejects it the upper bound is NaN and nothing is matched, although a SELL dated
  9999-12-31 lies in the financial year that starts on 1 July 9999.
\<close>

lemma parse_wrong_length: "length s \<noteq> 24 \<Longrightarrow> parse_iso_utc s = None"
  by (simp add: parse_iso_utc_def)

lemma year_10000_literal:
  "parse_iso_utc (string_of_int 10000 @ ''-06-30T23:59:59.999Z'') = None"
proof -
  have a: "string_of_nat 10000 = string_of_nat 1000 @ [digit_char 0]"
    using string_of_nat_step [of 10000] by simp
  have b: "length (string_of_nat 1000) = 4"
    using string_of_nat_four [of 1000] by simp
  have "length (string_of_int 10000 @ ''-06-30T23:59:59.999Z'') = 25"
    by (simp add: string_of_int_def a b)
  then show ?thesis by (simp add: parse_wrong_length)
qed

lemma year_9999_window:
  "parse_iso_utc ''9999-12-31T00:00:00.000Z'' = Some 253402214400000"
  "fy_window_start 9999 = 253386403200000" "fy_window_end 9999 = 253418025599999"
  by code_simp+

theorem CGTSummaryFY_year_9999_counterexample:
  "spec_in_window (\<lambda>_. None) 9999 (example_sell ''9999-12-31T00:00:00.000Z'' 10 5)
   \<and> CGTSummaryFY (\<lambda>_. None) [example_sell ''9999-12-31T00:00:00.000Z'' 10 5] 9999
       = \<lparr>events = 0, grossGain = 0, discountGain = 0\<rparr>"
proof -
  have w: "spec_in_window (\<lambda>_. None) 9999 (example_sell ''9999-12-31T00:00:00.000Z'' 10 5)"
    by (simp add: spec_in_window_def example_sell_def Date_parse_def year_9999_window)
  have en: "new_Date (\<lambda>_. None) (Str (string_of_int 10000 @ ''-06-30T23:59:59.999Z'')) = NaN"
    by (simp add: Date_parse_def year_10000_literal)
  have d: "new_Date (\<lambda>_. None) (tx.date (example_sell ''9999-12-31T00:00:00.000Z'' 10 5))
             = Num 253402214400000"
    by (simp add: example_sell_def Date_parse_def year_9999_window)
  have out: "\<not> in_fy (\<lambda>_. None) start NaN (example_sell ''9999-12-31T00:00:00.000Z'' 10 5)"
    for start
    by (simp add: in_fy_def d)
  have e: "(9999::int) + 1 = 10000" by simp
  have "CGTSummaryFY (\<lambda>_. None) [example_sell ''9999-12-31T00:00:00.000Z'' 10 5] 9999
          = \<lparr>events = 0, grossGain = 0, discountGain = 0\<rparr>"
    unfolding CGTSummaryFY_def Let_def e en by (simp add: out)
  then show ?thesis using w by simp
qed

lemma in_fy_undated:
  assumes "tx.date t = Undefined \<or> tx.date t = Null \<or> tx.date t = Str []"
  shows "\<not> in_fy other start end t"
  using assms by (auto simp: in_fy_def)

text \<open>
  C10. A SELL transaction whose \<open>date\<close> is absent, \<open>null\<close> or the empty string never
  contributes to the summary of any financial year: the event count, \<open>grossGain\<close> and
  \<open>discountGain\<close> are those of the list without it.
\<close>

theorem CGTSummaryFY_skips_undated_sells:
  assumes "tx.date t = Undefined \<or> tx.date t = Null \<or> tx.date t = Str []"
  shows "CGTSummaryFY other (xs @ t # ys) y = CGTSummaryFY other (xs @ ys) y"
  unfolding CGTSummaryFY_def Let_def
  by (simp add: in_fy_undated [OF assms])

text \<open>A sale with a gain of 1000 and no date, added to the example transactions.\<close>

theorem CGTSummaryFY_skips_undated_sells_witness:
  "CGTSummaryFY (\<lambda>_. None)
      (example_txs @ [(example_sell ''2024-01-01T00:00:00.000Z'' 1000 500)\<lparr>tx.date := Undefined\<rparr>])
      2023
     = CGTSummaryFY (\<lambda>_. None) example_txs 2023
   \<and> CGTSummaryFY (\<lambda>_. None)
      ((example_sell ''2024-01-01T00:00:00.000Z'' 1000 500)\<lparr>tx.date := Null\<rparr> # example_txs) 2023
     = CGTSummaryFY (\<lambda>_. None) example_txs 2023
   \<and> CGTSummaryFY (\<lambda>_. None)
      ((example_sell ''2024-01-01T00:00:00.000Z'' 1000 500)\<lparr>tx.date := Str []\<rparr> # example_txs) 2023
     = CGTSummaryFY (\<lambda>_. None) example_txs 2023"
  using CGTSummaryFY_skips_undated_sells
      [of "(example_sell ''2024-01-01T00:00:00.000Z'' 1000 500)\<lparr>tx.date := Undefined\<rparr>"
          "\<lambda>_. None" example_txs "[]" 2023]
    CGTSummaryFY_skips_undated_sells
      [of "(example_sell ''2024-01-01T00:00:00.000Z'' 1000 500)\<lparr>tx.date := Null\<rparr>"
          "\<lambda>_. None" "[]" example_txs 2023]
    CGTSummaryFY_skips_undated_sells
      [of "(example_sell ''2024-01-01T00:00:00.000Z'' 1000 500)\<lparr>tx.date := Str []\<rparr>"
          "\<lambda>_. None" "[]" example_txs 2023]
  by simp

section \<open>The allocation planner\<close>

lemma sum_list_scaled:
  fixes c d :: real
  shows "(\<Sum>a\<leftarrow>as. c * (f a / d)) = c * ((\<Sum>a\<leftarrow>as. f a) / d)"
  by (induction as) (simp_all add: algebra_simps add_divide_distrib)

lemma spendable_clamped:
  "spendable p = spec_spendable (max 0 (or_zero (budget p))) (max 0 (or_zero (fees p)))
                   (max 0 (or_zero (bufferPct p)))"
  by (simp add: spendable_def spec_spendable_def Let_def)

lemma totalWeights_sum:
  "totalWeights as = (if weight_sum as = 0 then 1 else weight_sum as)"
  by (simp add: totalWeights_def weight_sum_def Let_def foldl_plus_sum_list)

lemma planned_amounts:
  "0 < spendable p \<Longrightarrow>
     map plan_row.amount (plannedSplits p as)
       = map (\<lambda>a. spendable p * (targetWeight a / totalWeights as)) as"
  by (simp add: plannedSplits_def Let_def comp_def)

lemma planned_tickers:
  "0 < spendable p \<Longrightarrow> map plan_row.ticker (plannedSplits p as) = map asset.ticker as"
  by (simp add: plannedSplits_def Let_def comp_def)

lemma planned_amounts_sum:
  assumes "0 < spendable p" and "weight_sum as \<noteq> 0"
  shows "sum_list (map plan_row.amount (plannedSplits p as)) = spendable p"
proof -
  have "sum_list (map plan_row.amount (plannedSplits p as))
          = spendable p * ((\<Sum>a\<leftarrow>as. targetWeight a) / totalWeights as)"
    unfolding planned_amounts [OF assms(1)] by (rule sum_list_scaled)
  also have "\<dots> = spendable p * (weight_sum as / weight_sum as)"
    using assms(2) by (simp add: totalWeights_sum weight_sum_def)
  also have "\<dots> = spendable p"
    using assms(2) by simp
  finally show ?thesis .
qed

text \<open>
  C6 (as amended). With the budget, the flat fee and the buffer percentage each first
  replaced by 0 when it is not a number or is negative, the planner computes
  \<open>spendable = max(0, budget - fees - budget * bufferPct / 100)\<close> and returns an empty plan
  when \<open>spendable \<le> 0\<close>; otherwise it returns one row per asset, in order, whose amount is
  \<open>spendable * (targetWeight / totalWeight)\<close>, where \<open>totalWeight\<close> is the sum of the target
  weights, or 1 when that sum is zero. When the weights sum to a positive total the amounts
  sum to \<open>spendable\<close>; in particular a budget of 1000 with no fee and no buffer and weights
  summing to 1 gives amounts that sum to 1000. The sums are those of exact arithmetic: in
  the code's doubles they hold within floating tolerance.
\<close>

theorem plannedSplits_proportional:
  "(let sp = spec_spendable (max 0 (or_zero (budget p))) (max 0 (or_zero (fees p)))
               (max 0 (or_zero (bufferPct p)));
        tw = (if weight_sum as = 0 then 1 else weight_sum as)
    in (sp \<le> 0 \<longrightarrow> plannedSplits p as = [])
     \<and> (0 < sp \<longrightarrow>
          map plan_row.amount (plannedSplits p as) = map (\<lambda>a. sp * (targetWeight a / tw)) as
          \<and> map plan_row.ticker (plannedSplits p as) = map asset.ticker as)
     \<and> (0 < sp \<and> 0 < weight_sum as \<longrightarrow>
          sum_list (map plan_row.amount (plannedSplits p as)) = sp))
   \<and> (budget p = Num 1000 \<and> fees p = Num 0 \<and> bufferPct p = Num 0 \<and> weight_sum as = 1 \<longrightarrow>
        sum_list (map plan_row.amount (plannedSplits p as)) = 1000)"
proof -
  let ?sp = "spec_spendable (max 0 (or_zero (budget p))) (max 0 (or_zero (fees p)))
               (max 0 (or_zero (bufferPct p)))"
  have sp: "spendable p = ?sp" by (rule spendable_clamped)
  have empty: "plannedSplits p as = []" if "?sp \<le> 0"
    using that by (simp add: plannedSplits_def sp)
  have rows: "map plan_row.amount (plannedSplits p as)
                = map (\<lambda>a. ?sp * (targetWeight a / (if weight_sum as = 0 then 1 else weight_sum as))) as
              \<and> map plan_row.ticker (plannedSplits p as) = map asset.ticker as"
    if "0 < ?sp"
    using that planned_amounts [of p as] planned_tickers [of p as]
    by (simp add: sp totalWeights_sum)
  have total: "sum_list (map plan_row.amount (plannedSplits p as)) = ?sp"
    if "0 < ?sp" and "0 < weight_sum as"
    using that planned_amounts_sum [of p as] by (simp add: sp)
  have thousand: "sum_list (map plan_row.amount (plannedSplits p as)) = 1000"
    if "budget p = Num 1000" and "fees p = Num 0" and "bufferPct p = Num 0"
      and "weight_sum as = 1"
  proof -
    have "spendable p = 1000"
      using that by (simp add: spendable_def)
    then show ?thesis
      using planned_amounts_sum [of p as] that(4) by simp
  qed
  show ?thesis
    unfolding Let_def using empty rows total thousand by blast
qed

text \<open>The plan for a budget of 1000 over the default assets, whose weights sum to 1.\<close>

theorem plannedSplits_proportional_witness:
  "map plan_row.amount
     (plannedSplits \<lparr>budget = Num 1000, bufferPct = Num 0, fees = Num 0\<rparr> DEFAULT_ASSETS)
     = [350, 150, 300, 100, 100]
   \<and> sum_list (map plan_row.amount
        (plannedSplits \<lparr>budget = Num 1000, bufferPct = Num 0, fees = Num 0\<rparr> DEFAULT_ASSETS))
     = 1000"
proof -
  have w: "weight_sum DEFAULT_ASSETS = 1"
    by (simp add: weight_sum_def DEFAULT_ASSETS_def initial_asset_def)
  have ws: "map targetWeight DEFAULT_ASSETS = [0.35, 0.15, 0.30, 0.10, 0.10]"
    by (simp add: DEFAULT_ASSETS_def initial_asset_def)
  have m: "map (\<lambda>a. 1000 * targetWeight a) DEFAULT_ASSETS = [350, 150, 300, 100, 100]"
    by (simp add: DEFAULT_ASSETS_def initial_asset_def)
  show ?thesis
    using plannedSplits_proportional
      [of "\<lparr>budget = Num 1000, bufferPct = Num 0, fees = Num 0\<rparr>" DEFAULT_ASSETS]
    by (simp add: Let_def spec_spendable_def w m)
qed

text \<open>
  The claim as stated takes the three inputs as they are. With a fee of -50 typed into the
  field, the code clamps the fee to 0 and plans 100 of a budget of 100, where the formula
  of the claim gives 150.
\<close>

theorem plannedSplits_negative_fee_counterexample:
  "map plan_row.amount
     (plannedSplits \<lparr>budget = Num 100, bufferPct = Num 0, fees = Num (- 50)\<rparr> [example_asset])
     = [100]
   \<and> map (\<lambda>a. spec_spendable 100 (- 50) 0 * (targetWeight a / weight_sum [example_asset]))
        [example_asset] = [150]"
  by (simp add: plannedSplits_def spendable_def totalWeights_def spec_spendable_def
      weight_sum_def example_asset_def Let_def)

section \<open>Import of a backup\<close>






section \<open>CAGR\<close>

lemma years_of_parsed:
  assumes "Date_parse other d = Some t0"
  shows "yearsBetween (new_Date other (Str d)) (Num (real_of_int now)) = Num (spec_years t0 now)"
  using assms by (simp add: spec_years_def)

text \<open>
  C8. For an asset and an evaluation time, \<open>getCAGR\<close> returns 0 when the asset has no
  first contribution date or its \<open>invested\<close> is not positive; otherwise, with the years
  since the first contribution measured as elapsed milliseconds over 365.25 days, it returns
  0 when the elapsed time is not positive, else -1 when the market value \<open>units * price\<close>
  is not positive, else \<open>(value / invested) ^ (1 / years) - 1\<close>.
\<close>

theorem getCAGR_cases:
  "(\<not> truthy (firstContribution a) \<or> invested a \<le> 0 \<longrightarrow> getCAGR other a now = Num 0)
   \<and> (firstContribution a = Str d \<and> d \<noteq> [] \<and> Date_parse other d = Some t0 \<and> 0 < invested a
        \<longrightarrow>
        (spec_years t0 now \<le> 0 \<longrightarrow> getCAGR other a now = Num 0)
      \<and> (0 < spec_years t0 now \<and> asset.units a * asset.price a \<le> 0
            \<longrightarrow> getCAGR other a now = Num (- 1))
      \<and> (0 < spec_years t0 now \<and> 0 < asset.units a * asset.price a
            \<longrightarrow> getCAGR other a now
                  = Num ((asset.units a * asset.price a / invested a) powr (1 / spec_years t0 now)
                         - 1)))"
proof -
  have none: "getCAGR other a now = Num 0"
    if "\<not> truthy (firstContribution a) \<or> invested a \<le> 0"
    using that by (auto simp: getCAGR_def)
  have rest: "(spec_years t0 now \<le> 0 \<longrightarrow> getCAGR other a now = Num 0)
      \<and> (0 < spec_years t0 now \<and> asset.units a * asset.price a \<le> 0
            \<longrightarrow> getCAGR other a now = Num (- 1))
      \<and> (0 < spec_years t0 now \<and> 0 < asset.units a * asset.price a
            \<longrightarrow> getCAGR other a now
                  = Num ((asset.units a * asset.price a / invested a) powr (1 / spec_years t0 now)
                         - 1))"
    if fc: "firstContribution a = Str d" and d: "d \<noteq> []"
      and p: "Date_parse other d = Some t0" and inv: "0 < invested a"
  proof -
    have y: "yearsBetween (new_Date other (firstContribution a)) (Num (real_of_int now))
               = Num (spec_years t0 now)"
      unfolding fc by (rule years_of_parsed [OF p])
    have g: "\<not> (\<not> truthy (firstContribution a) \<or> invested a \<le> 0)"
      using fc d inv by simp
    show ?thesis
      unfolding getCAGR_def Let_def y using g by auto
  qed
  show ?thesis using none rest by blast
qed

text \<open>
  The example asset (5 units at 10, 48 invested, first bought on 1 January 2020) one year
  of 365.25 days later: 50 / 48 - 1; and the default asset VGS, never bought: 0.
\<close>

theorem getCAGR_cases_witness:
  "getCAGR (\<lambda>_. None) example_asset 1609394400000 = Num (1 / 24)
   \<and> getCAGR (\<lambda>_. None) example_asset 1577836800000 = Num 0
   \<and> getCAGR (\<lambda>_. None) (example_asset\<lparr>asset.price := 0\<rparr>) 1609394400000 = Num (- 1)
   \<and> getCAGR (\<lambda>_. None) (initial_asset ''VGS'' ''VGS - Intl Shares'' 0.35) 1609394400000 = Num 0"
proof -
  have p: "Date_parse (\<lambda>_. None) ''2020-01-01T00:00:00.000Z'' = Some 1577836800000"
    by (simp add: Date_parse_def parse_2020)
  have y1: "spec_years 1577836800000 1609394400000 = 1"
    and y0: "spec_years 1577836800000 1577836800000 = 0"
    by (simp_all add: spec_years_def)
  have fc: "firstContribution example_asset = Str ''2020-01-01T00:00:00.000Z''"
    and inv: "invested example_asset = 48" and u: "asset.units example_asset = 5"
    and pr: "asset.price example_asset = 10"
    by (simp_all add: example_asset_def)
  have c1: "getCAGR (\<lambda>_. None) example_asset 1609394400000 = Num (1 / 24)"
    using getCAGR_cases [of example_asset "\<lambda>_. None" 1609394400000
        "''2020-01-01T00:00:00.000Z''" 1577836800000]
    by (simp add: p y1 fc inv u pr)
  have c2: "getCAGR (\<lambda>_. None) example_asset 1577836800000 = Num 0"
    using getCAGR_cases [of example_asset "\<lambda>_. None" 1577836800000
        "''2020-01-01T00:00:00.000Z''" 1577836800000]
    by (simp add: p y0 fc inv)
  have c3: "getCAGR (\<lambda>_. None) (example_asset\<lparr>asset.price := 0\<rparr>) 1609394400000 = Num (- 1)"
    using getCAGR_cases [of "example_asset\<lparr>asset.price := 0\<rparr>" "\<lambda>_. None" 1609394400000
        "''2020-01-01T00:00:00.000Z''" 1577836800000]
    by (simp add: p y1 fc inv)
  have c4: "getCAGR (\<lambda>_. None) (initial_asset ''VGS'' ''VGS - Intl Shares'' 0.35) 1609394400000
              = Num 0"
    using getCAGR_cases [of "initial_asset ''VGS'' ''VGS - Intl Shares'' 0.35" "\<lambda>_. None"
        1609394400000]
    by (simp add: initial_asset_def)
  show ?thesis using c1 c2 c3 c4 by simp
qed

section \<open>Rebalancing suggestions\<close>

text \<open>
  Sorting with the comparator of \<open>suggestions\<close> is the stable sort by the key
  \<open>- |diffPct|\<close>.
\<close>

lemma insert_cmp_insort_key:
  "insert_cmp (\<lambda>a b. \<bar>diffPct b\<bar> - \<bar>diffPct a\<bar>) x ys = insort_key (\<lambda>d. - \<bar>diffPct d\<bar>) x ys"
  by (induction ys) simp_all

lemma js_sort_sort_key:
  "js_sort (\<lambda>a b. \<bar>diffPct b\<bar> - \<bar>diffPct a\<bar>) xs = sort_key (\<lambda>d. - \<bar>diffPct d\<bar>) xs"
proof -
  have e: "insert_cmp (\<lambda>a b. \<bar>diffPct b\<bar> - \<bar>diffPct a\<bar>) = insort_key (\<lambda>d. - \<bar>diffPct d\<bar>)"
    by (intro ext) (rule insert_cmp_insort_key)
  show ?thesis by (simp only: js_sort_def sort_key_def e)
qed

lemma suggestions_sort_key:
  assumes "enabled rb" and "0 < totals_value as"
  shows "suggestions as rb
           = sort_key (\<lambda>d. - \<bar>diffPct d\<bar>) (filter (\<lambda>d. thresholdPct rb \<le> \<bar>diffPct d\<bar>) (deltas as))"
  using assms by (simp add: suggestions_def Let_def js_sort_sort_key)

lemma deltas_drift:
  assumes "0 < totals_value as"
  shows "map diffPct (deltas as)
           = map (\<lambda>a. (asset.units a * asset.price a / totals_value as - targetWeight a) * 100) as"
    and "map delta.ticker (deltas as) = map asset.ticker as"
  using assms by (simp_all add: deltas_def Let_def comp_def)

text \<open>
  C9. \<open>suggestions\<close> returns the empty list when rebalancing is disabled or the total
  market value is not positive. Otherwise it returns exactly the entries of the assets whose
  \<open>|diffPct| = |(currentWeight - targetWeight) * 100|\<close> is at least the threshold, in
  descending order of \<open>|diffPct|\<close>, entries of equal drift in the order of the assets: the
  output and its order are determined by the inputs, so a second run on the same inputs
  returns the same list.
\<close>

theorem suggestions_filtered_and_sorted:
  "(\<not> enabled rb \<or> totals_value as \<le> 0 \<longrightarrow> suggestions as rb = [])
   \<and> (enabled rb \<and> 0 < totals_value as \<longrightarrow>
        map diffPct (deltas as)
          = map (\<lambda>a. (asset.units a * asset.price a / totals_value as - targetWeight a) * 100) as
      \<and> mset (suggestions as rb)
          = mset (filter (\<lambda>d. thresholdPct rb \<le> \<bar>diffPct d\<bar>) (deltas as))
      \<and> sorted_wrt (\<lambda>a b. \<bar>diffPct b\<bar> \<le> \<bar>diffPct a\<bar>) (suggestions as rb)
      \<and> (\<forall>k. filter (\<lambda>d. \<bar>diffPct d\<bar> = k) (suggestions as rb)
              = filter (\<lambda>d. \<bar>diffPct d\<bar> = k)
                  (filter (\<lambda>d. thresholdPct rb \<le> \<bar>diffPct d\<bar>) (deltas as)))
      \<and> suggestions as rb
          = sort_key (\<lambda>d. - \<bar>diffPct d\<bar>)
              (filter (\<lambda>d. thresholdPct rb \<le> \<bar>diffPct d\<bar>) (deltas as)))"
proof -
  have off: "suggestions as rb = []" if "\<not> enabled rb \<or> totals_value as \<le> 0"
    using that by (auto simp: suggestions_def)
  have on: "map diffPct (deltas as)
          = map (\<lambda>a. (asset.units a * asset.price a / totals_value as - targetWeight a) * 100) as
      \<and> mset (suggestions as rb)
          = mset (filter (\<lambda>d. thresholdPct rb \<le> \<bar>diffPct d\<bar>) (deltas as))
      \<and> sorted_wrt (\<lambda>a b. \<bar>diffPct b\<bar> \<le> \<bar>diffPct a\<bar>) (suggestions as rb)
      \<and> (\<forall>k. filter (\<lambda>d. \<bar>diffPct d\<bar> = k) (suggestions as rb)
              = filter (\<lambda>d. \<bar>diffPct d\<bar> = k)
                  (filter (\<lambda>d. thresholdPct rb \<le> \<bar>diffPct d\<bar>) (deltas as)))
      \<and> suggestions as rb
          = sort_key (\<lambda>d. - \<bar>diffPct d\<bar>)
              (filter (\<lambda>d. thresholdPct rb \<le> \<bar>diffPct d\<bar>) (deltas as))"
    if en: "enabled rb" and tv: "0 < totals_value as"
  proof -
    let ?out = "filter (\<lambda>d. thresholdPct rb \<le> \<bar>diffPct d\<bar>) (deltas as)"
    note eq = suggestions_sort_key [OF en tv]
    have m: "mset (suggestions as rb) = mset ?out"
      unfolding eq by simp
    have "sorted (map (\<lambda>d. - \<bar>diffPct d\<bar>) (suggestions as rb))"
      unfolding eq by (rule sorted_sort_key)
    then have s: "sorted_wrt (\<lambda>a b. \<bar>diffPct b\<bar> \<le> \<bar>diffPct a\<bar>) (suggestions as rb)"
      by (simp add: sorted_map)
    have st: "filter (\<lambda>d. \<bar>diffPct d\<bar> = k) (suggestions as rb)
                = filter (\<lambda>d. \<bar>diffPct d\<bar> = k) ?out" for k
      using sort_key_stable [of "\<lambda>d. - \<bar>diffPct d\<bar>" "- k" ?out]
      unfolding eq by simp
    show ?thesis
      using deltas_drift(1) [OF tv] m s st eq by blast
  qed
  show ?thesis using off on by blast
qed

text \<open>
  The example portfolio at a threshold of 5: GOLD is 40 points over its target and VGS 15,
  VAF is 2 points under and is left out; nothing is suggested when the switch is off.
\<close>

theorem suggestions_filtered_and_sorted_witness:
  "map (\<lambda>d. (delta.ticker d, diffPct d))
     (suggestions example_portfolio \<lparr>enabled = True, thresholdPct = 5\<rparr>)
     = [(''GOLD'', 40), (''VGS'', 15)]
   \<and> suggestions example_portfolio \<lparr>enabled = False, thresholdPct = 5\<rparr> = []"
proof -
  have tv: "totals_value example_portfolio = 100"
    by (simp add: totals_value_def example_portfolio_def example_asset_def initial_asset_def)
  have ds: "deltas example_portfolio =
              [\<lparr>delta.ticker = ''VGS'', delta.name = ''VGS - Intl Shares'', diffPct = 15,
                currentWeight = 1 / 2\<rparr>,
               \<lparr>delta.ticker = ''GOLD'', delta.name = ''GOLD - Physical ETF'', diffPct = 40,
                currentWeight = 1 / 2\<rparr>,
               \<lparr>delta.ticker = ''VAF'', delta.name = ''VAF - Aus Bonds'', diffPct = - 2,
                currentWeight = 0\<rparr>]"
    unfolding deltas_def tv
    by (simp add: example_portfolio_def example_asset_def initial_asset_def)
  show ?thesis
    using suggestions_filtered_and_sorted
        [of "\<lparr>enabled = True, thresholdPct = 5\<rparr>" example_portfolio]
      suggestions_filtered_and_sorted
        [of "\<lparr>enabled = False, thresholdPct = 5\<rparr>" example_portfolio]
    by (simp add: tv ds)
qed

end
